theory Spec2Isabelle
  imports Main "HOL-Library.Word" "HOL-Library.AList"
begin

section \<open>Python values and exceptions\<close>

text \<open>
  The Lambda function in \<^verbatim>\<open>src/lambda/lambda_function.py\<close> is dynamically typed: the
  event, the parsed request body and the parsed model response are whatever
  \<^verbatim>\<open>json.loads\<close> produced. \<open>pyval\<close> is the universe of those values. A Python \<^verbatim>\<open>str\<close>
  is a \<open>string\<close>, one \<open>char\<close> per code point (so the model covers code points up to
  U+00FF, and \<open>length\<close> is Python's \<^verbatim>\<open>len\<close>); an \<^verbatim>\<open>int\<close> is unbounded; a \<^verbatim>\<open>float\<close> is its
  IEEE 754 binary64 bit pattern; a \<^verbatim>\<open>dict\<close> with \<^verbatim>\<open>str\<close> keys is an association list in
  insertion order, read with \<open>map_of\<close>.
\<close>

datatype pyval =
    PNone
  | PBool bool
  | PInt int
  | PFloat "64 word"
  | PStr string
  | PList "pyval list"
  | PDict "(string \<times> pyval) list"

type_synonym pydict = "(string \<times> pyval) list"

text \<open>
  Exceptions are values, split the way the \<^verbatim>\<open>except\<close> clauses of the source tell them
  apart: \<^verbatim>\<open>json.JSONDecodeError\<close>, botocore's \<^verbatim>\<open>ClientError\<close> (carrying its
  \<^verbatim>\<open>response\<close> attribute) and \<^verbatim>\<open>BotoCoreError\<close>, each with its subclasses, and the
  other subclasses of \<^verbatim>\<open>Exception\<close>, of which the built-in ones raised by the
  operations below are named.
\<close>

datatype exn =
    JSONDecodeError
  | ClientError pyval
  | BotoCoreError
  | TypeError
  | KeyError
  | IndexError
  | AttributeError
  | ValueError
  | RecursionError
  | OtherException

text \<open>Truth value testing (\<^verbatim>\<open>if x\<close>, \<^verbatim>\<open>not x\<close>); a float is false when it is +0.0 or -0.0.\<close>

fun truthy :: "pyval \<Rightarrow> bool" where
  "truthy PNone = False"
| "truthy (PBool b) = b"
| "truthy (PInt i) = (i \<noteq> 0)"
| "truthy (PFloat w) = (w \<noteq> 0 \<and> w \<noteq> 0x8000000000000000)"
| "truthy (PStr s) = (s \<noteq> [])"
| "truthy (PList xs) = (xs \<noteq> [])"
| "truthy (PDict d) = (d \<noteq> [])"

text \<open>\<^verbatim>\<open>k in s\<close> for two strings: \<open>k\<close> occurs in \<open>s\<close> as a contiguous run.\<close>

fun str_contains :: "string \<Rightarrow> string \<Rightarrow> bool" where
  "str_contains k [] = (k = [])"
| "str_contains k (c # cs) = (take (length k) (c # cs) = k \<or> str_contains k cs)"

text \<open>
  \<^verbatim>\<open>k in v\<close> for a string \<open>k\<close>: key membership in a dict, element membership in a list
  (a \<^verbatim>\<open>str\<close> equals only an equal \<^verbatim>\<open>str\<close>), substring test in a string, and
  \<^verbatim>\<open>TypeError\<close> for \<^verbatim>\<open>None\<close>, booleans and numbers, which are not iterable.
\<close>

fun py_contains :: "string \<Rightarrow> pyval \<Rightarrow> exn + bool" where
  "py_contains k (PDict d) = Inr (map_of d k \<noteq> None)"
| "py_contains k (PList xs) = Inr (List.member xs (PStr k))"
| "py_contains k (PStr s) = Inr (str_contains k s)"
| "py_contains k PNone = Inl TypeError"
| "py_contains k (PBool b) = Inl TypeError"
| "py_contains k (PInt i) = Inl TypeError"
| "py_contains k (PFloat w) = Inl TypeError"

text \<open>
  \<^verbatim>\<open>v[k]\<close> for a string \<open>k\<close>: a dict lookup (\<^verbatim>\<open>KeyError\<close> when the key is missing);
  a list or a string wants an integer index, the other values are not subscriptable.
\<close>

fun py_getitem :: "pyval \<Rightarrow> string \<Rightarrow> exn + pyval" where
  "py_getitem (PDict d) k = (case map_of d k of None \<Rightarrow> Inl KeyError | Some v \<Rightarrow> Inr v)"
| "py_getitem PNone k = Inl TypeError"
| "py_getitem (PBool b) k = Inl TypeError"
| "py_getitem (PInt i) k = Inl TypeError"
| "py_getitem (PFloat w) k = Inl TypeError"
| "py_getitem (PStr s) k = Inl TypeError"
| "py_getitem (PList xs) k = Inl TypeError"

text \<open>
  \<^verbatim>\<open>v[0]\<close>: the first element of a list or the first character of a string
  (\<^verbatim>\<open>IndexError\<close> when empty); a dict with string keys has no key \<open>0\<close>.
\<close>

fun py_getitem0 :: "pyval \<Rightarrow> exn + pyval" where
  "py_getitem0 (PList []) = Inl IndexError"
| "py_getitem0 (PList (x # xs)) = Inr x"
| "py_getitem0 (PStr []) = Inl IndexError"
| "py_getitem0 (PStr (c # cs)) = Inr (PStr [c])"
| "py_getitem0 (PDict d) = Inl KeyError"
| "py_getitem0 PNone = Inl TypeError"
| "py_getitem0 (PBool b) = Inl TypeError"
| "py_getitem0 (PInt i) = Inl TypeError"
| "py_getitem0 (PFloat w) = Inl TypeError"

text \<open>\<^verbatim>\<open>len(v)\<close>: defined for lists, strings and dicts.\<close>

fun py_len :: "pyval \<Rightarrow> exn + nat" where
  "py_len (PList xs) = Inr (length xs)"
| "py_len (PStr s) = Inr (length s)"
| "py_len (PDict d) = Inr (length d)"
| "py_len PNone = Inl TypeError"
| "py_len (PBool b) = Inl TypeError"
| "py_len (PInt i) = Inl TypeError"
| "py_len (PFloat w) = Inl TypeError"

text \<open>
  \<^verbatim>\<open>str.isspace\<close> on one code point below U+0100: TAB, LF, VT, FF, CR, the four
  separators FS, GS, RS, US, the space, NEL and the no-break space.
  \<^verbatim>\<open>s.strip()\<close> drops such characters from both ends.
\<close>

definition isspace :: "char \<Rightarrow> bool" where
  "isspace c = ((of_char c :: nat) \<in> {9, 10, 11, 12, 13, 28, 29, 30, 31, 32, 133, 160})"

definition strip :: "string \<Rightarrow> string" where
  "strip s = rev (dropWhile isspace (rev (dropWhile isspace s)))"

text \<open>\<^verbatim>\<open>d.update(other)\<close>: each entry of \<open>other\<close>, in order, replaces the value of its
  key in place or is appended.\<close>

definition dict_update :: "('k \<times> 'v) list \<Rightarrow> ('k \<times> 'v) list \<Rightarrow> ('k \<times> 'v) list" where
  "dict_update d other = fold (\<lambda>(k, v). AList.update k v) other d"

section \<open>The environment of the function\<close>

text \<open>
  What the module takes from outside is a parameter of the model:
  \<^item> \<open>json_loads\<close>: \<^verbatim>\<open>json.loads\<close> on a text, returning the value or raising;
  \<^item> \<open>json_dumps\<close>: \<^verbatim>\<open>json.dumps\<close> on the values the module builds itself (literals,
    messages, and values that \<^verbatim>\<open>json.loads\<close> returned), on which it is total;
  \<^item> \<open>json_dumps_event\<close>: \<^verbatim>\<open>json.dumps(event, default=str)\<close>, the argument of the log
    statement that opens the handler (line 218); the event comes from outside, and the
    encoder raises on one beyond its limits (an integer of more than 4300 digits, a
    nesting deeper than the recursion limit);
  \<^item> \<open>py_repr\<close>: how an f-string renders a value that is not a \<^verbatim>\<open>str\<close>;
  \<^item> \<open>invoke_model\<close>: \<^verbatim>\<open>bedrock_client.invoke_model(modelId, body, contentType, accept)\<close>
    followed by \<^verbatim>\<open>response['body'].read()\<close>: the bytes read, or the exception raised;
  \<^item> \<open>BEDROCK_MODEL_ID\<close>: the module constant read from the process environment.
\<close>

text \<open>
  The other arguments of the logger are f-strings over values of \<open>pyval\<close> and over texts
  of exceptions; evaluating them raises nothing, and what the logger writes is left
  out. Exceptions outside the \<^verbatim>\<open>Exception\<close> hierarchy (interrupts, interpreter exit) are
  outside the model.
\<close>

text \<open>What the encoder raises, and the exception it is for the \<^verbatim>\<open>except\<close> clauses.\<close>

datatype encode_error = EncodeTypeError | EncodeValueError | EncodeRecursionError

fun encode_exn :: "encode_error \<Rightarrow> exn" where
  "encode_exn EncodeTypeError = TypeError"
| "encode_exn EncodeValueError = ValueError"
| "encode_exn EncodeRecursionError = RecursionError"

type_synonym remote_call = "string \<times> string \<times> string \<times> string"

record env =
  json_loads :: "string \<Rightarrow> exn + pyval"
  json_dumps :: "pyval \<Rightarrow> string"
  json_dumps_event :: "pydict \<Rightarrow> encode_error + string"
  py_repr :: "pyval \<Rightarrow> string"
  invoke_model :: "remote_call \<Rightarrow> exn + string"
  BEDROCK_MODEL_ID :: string

definition MAX_TOKENS :: int where
  "MAX_TOKENS = 4000"

text \<open>\<^verbatim>\<open>TEMPERATURE = 0.7\<close>, the binary64 nearest to 0.7.\<close>

definition TEMPERATURE :: "64 word" where
  "TEMPERATURE = 0x3FE6666666666666"

text \<open>\<^verbatim>\<open>json.loads(v)\<close> on a Python value: anything but text is a \<^verbatim>\<open>TypeError\<close>.\<close>

fun py_json_loads :: "env \<Rightarrow> pyval \<Rightarrow> exn + pyval" where
  "py_json_loads E (PStr s) = json_loads E s"
| "py_json_loads E PNone = Inl TypeError"
| "py_json_loads E (PBool b) = Inl TypeError"
| "py_json_loads E (PInt i) = Inl TypeError"
| "py_json_loads E (PFloat w) = Inl TypeError"
| "py_json_loads E (PList xs) = Inl TypeError"
| "py_json_loads E (PDict d) = Inl TypeError"

text \<open>A replacement field \<^verbatim>\<open>{v}\<close> of an f-string: a \<^verbatim>\<open>str\<close> is inserted as it is.\<close>

fun py_format :: "env \<Rightarrow> pyval \<Rightarrow> string" where
  "py_format E (PStr s) = s"
| "py_format E v = py_repr E v"

section \<open>\<^verbatim>\<open>create_response\<close>\<close>

record envelope =
  statusCode :: int
  headers :: "(string \<times> string) list"
  body :: string

definition default_headers :: "(string \<times> string) list" where
  "default_headers =
     [(''Content-Type'', ''application/json''),
      (''Access-Control-Allow-Origin'', ''*''),
      (''Access-Control-Allow-Methods'', ''POST, OPTIONS''),
      (''Access-Control-Allow-Headers'', ''Content-Type, Authorization'')]"

text \<open>
  \<^verbatim>\<open>create_response(status_code, body, headers=None)\<close>: \<^verbatim>\<open>if headers:\<close> is false for
  \<^verbatim>\<open>None\<close> and for the empty dict.
\<close>

definition create_response ::
  "env \<Rightarrow> int \<Rightarrow> pydict \<Rightarrow> (string \<times> string) list option \<Rightarrow> envelope" where
  "create_response E status_code body' headers' =
     \<lparr>statusCode = status_code,
      headers = (case headers' of
                   None \<Rightarrow> default_headers
                 | Some h \<Rightarrow> if h \<noteq> [] then dict_update default_headers h else default_headers),
      body = json_dumps E (PDict body')\<rparr>"

section \<open>\<^verbatim>\<open>validate_request\<close>\<close>

text \<open>Sequencing of statements that may raise: the first exception ends the block.\<close>

fun bind_exn :: "exn + 'a \<Rightarrow> ('a \<Rightarrow> exn + 'b) \<Rightarrow> exn + 'b" where
  "bind_exn (Inl e) f = Inl e"
| "bind_exn (Inr v) f = f v"

text \<open>
  The body of the \<^verbatim>\<open>try\<close> block of \<^verbatim>\<open>validate_request\<close> (lines 73 to 97). The inner
  \<^verbatim>\<open>try\<close> around \<^verbatim>\<open>json.loads\<close> catches \<^verbatim>\<open>json.JSONDecodeError\<close> only. \<^verbatim>\<open>None\<close> is the
  Python \<^verbatim>\<open>None\<close> the function returns for a valid request.
\<close>

definition validate_request_try :: "env \<Rightarrow> pydict \<Rightarrow> exn + string option" where
  "validate_request_try E event =
     (case map_of event ''body'' of
        None \<Rightarrow> Inr (Some ''Request body is required'')
      | Some b \<Rightarrow>
          if \<not> truthy b then Inr (Some ''Request body is required'')
          else
            (case py_json_loads E b of
               Inl JSONDecodeError \<Rightarrow> Inr (Some ''Invalid JSON in request body'')
             | Inl e \<Rightarrow> Inl e
             | Inr body' \<Rightarrow>
                 bind_exn (py_contains ''prompt'' body') (\<lambda>has_prompt.
                   if \<not> has_prompt then Inr (Some ''Missing 'prompt' field in request body'')
                   else
                     bind_exn (py_getitem body' ''prompt'') (\<lambda>prompt.
                       case prompt of
                         PStr p \<Rightarrow>
                           if strip p = [] then Inr (Some ''Prompt cannot be empty'')
                           else if length p > 4000
                           then Inr (Some ''Prompt exceeds maximum length of 4000 characters'')
                           else Inr None
                       | _ \<Rightarrow> Inr (Some ''Prompt must be a string'')))))"

text \<open>\<^verbatim>\<open>validate_request\<close>: the outer \<^verbatim>\<open>except Exception\<close> turns whatever the block
  raised into a message.\<close>

definition validate_request :: "env \<Rightarrow> pydict \<Rightarrow> exn + string option" where
  "validate_request E event =
     (case validate_request_try E event of
        Inl e \<Rightarrow> Inr (Some ''Invalid request format'')
      | Inr r \<Rightarrow> Inr r)"

section \<open>\<^verbatim>\<open>invoke_bedrock_model\<close>\<close>

definition request_body :: "string \<Rightarrow> pydict" where
  "request_body prompt =
     [(''anthropic_version'', PStr ''bedrock-2023-05-31''),
      (''max_tokens'', PInt MAX_TOKENS),
      (''temperature'', PFloat TEMPERATURE),
      (''messages'', PList [PDict [(''role'', PStr ''user''), (''content'', PStr prompt)]])]"

text \<open>The arguments of the one call the function sends to the remote service.\<close>

definition bedrock_call :: "env \<Rightarrow> string \<Rightarrow> remote_call" where
  "bedrock_call E prompt =
     (BEDROCK_MODEL_ID E, json_dumps E (PDict (request_body prompt)),
      ''application/json'', ''application/json'')"

text \<open>The two dict literals the function returns.\<close>

definition success_result :: "env \<Rightarrow> pyval \<Rightarrow> pyval \<Rightarrow> pydict" where
  "success_result E generated_text usage =
     [(''success'', PBool True),
      (''response'', generated_text),
      (''model_id'', PStr (BEDROCK_MODEL_ID E)),
      (''usage'', usage)]"

definition failure_result :: "string \<Rightarrow> pydict" where
  "failure_result msg = [(''success'', PBool False), (''error'', PStr msg)]"

text \<open>\<^verbatim>\<open>v.get(k, default)\<close>; only a dict has the method.\<close>

fun py_get :: "pyval \<Rightarrow> string \<Rightarrow> pyval \<Rightarrow> exn + pyval" where
  "py_get (PDict d) k dflt = Inr (case map_of d k of None \<Rightarrow> dflt | Some v \<Rightarrow> v)"
| "py_get v k dflt = Inl AttributeError"

text \<open>
  The body of the \<^verbatim>\<open>try\<close> block (lines 119 to 160). The condition
  \<^verbatim>\<open>'content' in response_body and len(response_body['content']) > 0\<close> evaluates its
  second operand only when the first is true.
\<close>

definition invoke_bedrock_model_try :: "env \<Rightarrow> string \<Rightarrow> exn + pydict" where
  "invoke_bedrock_model_try E prompt =
     bind_exn (invoke_model E (bedrock_call E prompt)) (\<lambda>raw.
     bind_exn (json_loads E raw) (\<lambda>response_body.
     bind_exn (bind_exn (py_contains ''content'' response_body) (\<lambda>has_content.
                 if \<not> has_content then Inr False
                 else bind_exn (py_getitem response_body ''content'') (\<lambda>content.
                      bind_exn (py_len content) (\<lambda>n. Inr (n > 0))))) (\<lambda>ok.
       if ok then
         bind_exn (py_getitem response_body ''content'') (\<lambda>content.
         bind_exn (py_getitem0 content) (\<lambda>item.
         bind_exn (py_getitem item ''text'') (\<lambda>generated_text.
         bind_exn (py_get response_body ''usage'' (PDict [])) (\<lambda>usage.
           Inr (success_result E generated_text usage)))))
       else Inr (failure_result ''Unexpected response format from AI model''))))"

text \<open>
  The \<^verbatim>\<open>except ClientError\<close> clause (lines 162 to 186). The two subscripts
  \<^verbatim>\<open>e.response['Error']['Code']\<close> and \<^verbatim>\<open>e.response['Error']['Message']\<close> are outside any
  \<^verbatim>\<open>try\<close>: what they raise leaves the function.
\<close>

definition client_error_result :: "env \<Rightarrow> pyval \<Rightarrow> exn + pydict" where
  "client_error_result E response =
     bind_exn (py_getitem response ''Error'') (\<lambda>err.
     bind_exn (py_getitem err ''Code'') (\<lambda>error_code.
     bind_exn (py_getitem err ''Message'') (\<lambda>error_message.
       if error_code = PStr ''AccessDeniedException''
       then Inr (failure_result ''Access denied to Bedrock model. Please check IAM permissions.'')
       else if error_code = PStr ''ValidationException''
       then Inr (failure_result ''Invalid request to Bedrock model.'')
       else if error_code = PStr ''ThrottlingException''
       then Inr (failure_result ''Request throttled. Please try again later.'')
       else Inr (failure_result (''Bedrock service error: '' @ py_format E error_message)))))"

text \<open>
  \<^verbatim>\<open>invoke_bedrock_model\<close>, with the list of calls sent to the remote service so far as
  explicit state: the function sends exactly one.
\<close>

definition invoke_bedrock_model ::
  "env \<Rightarrow> string \<Rightarrow> remote_call list \<Rightarrow> (exn + pydict) \<times> remote_call list" where
  "invoke_bedrock_model E prompt calls =
     ((case invoke_bedrock_model_try E prompt of
         Inr r \<Rightarrow> Inr r
       | Inl (ClientError response) \<Rightarrow> client_error_result E response
       | Inl BotoCoreError \<Rightarrow>
           Inr (failure_result ''Network or configuration error accessing Bedrock service'')
       | Inl e \<Rightarrow> Inr (failure_result ''Internal server error processing AI request'')),
      calls @ [bedrock_call E prompt])"

section \<open>\<^verbatim>\<open>lambda_handler\<close>\<close>

text \<open>\<^verbatim>\<open>v.strip()\<close>; only a \<^verbatim>\<open>str\<close> has the method.\<close>

fun py_strip :: "pyval \<Rightarrow> exn + string" where
  "py_strip (PStr s) = Inr (strip s)"
| "py_strip v = Inl AttributeError"

text \<open>Lines 242 to 255: the envelope for what \<^verbatim>\<open>invoke_bedrock_model\<close> returned.\<close>

definition bedrock_envelope :: "env \<Rightarrow> pydict \<Rightarrow> exn + envelope" where
  "bedrock_envelope E bedrock_response =
     bind_exn (py_getitem (PDict bedrock_response) ''success'') (\<lambda>success.
       if truthy success then
         bind_exn (py_getitem (PDict bedrock_response) ''response'') (\<lambda>response.
         bind_exn (py_getitem (PDict bedrock_response) ''model_id'') (\<lambda>model_id.
         bind_exn (py_get (PDict bedrock_response) ''usage'' (PDict [])) (\<lambda>usage.
           Inr (create_response E 200
                  [(''message'', PStr ''Success''),
                   (''response'', response),
                   (''model_id'', model_id),
                   (''usage'', usage)] None))))
       else
         bind_exn (py_getitem (PDict bedrock_response) ''error'') (\<lambda>err.
           Inr (create_response E 500
                  [(''error'', PStr ''Internal Server Error''), (''message'', err)] None)))"

text \<open>Lines 233 to 255: what the handler does once validation has passed.\<close>

definition process_prompt ::
  "env \<Rightarrow> pydict \<Rightarrow> remote_call list \<Rightarrow> (exn + envelope) \<times> remote_call list" where
  "process_prompt E event calls =
     (case bind_exn (py_getitem (PDict event) ''body'') (\<lambda>b.
           bind_exn (py_json_loads E b) (\<lambda>body'.
           bind_exn (py_getitem body' ''prompt'') py_strip)) of
        Inl e \<Rightarrow> (Inl e, calls)
      | Inr prompt \<Rightarrow>
          (case invoke_bedrock_model E prompt calls of
             (Inl e, calls') \<Rightarrow> (Inl e, calls')
           | (Inr bedrock_response, calls') \<Rightarrow> (bedrock_envelope E bedrock_response, calls')))"

text \<open>
  The body of the \<^verbatim>\<open>try\<close> block of \<^verbatim>\<open>lambda_handler\<close> (lines 218 to 255). The log
  statement of line 218 evaluates \<^verbatim>\<open>json.dumps(event, default=str)\<close> first: what that
  raises ends the block before the method is looked at.
  \<^verbatim>\<open>event.get('httpMethod') == 'OPTIONS'\<close> holds only for that very string;
  \<^verbatim>\<open>if validation_error:\<close> is false for \<^verbatim>\<open>None\<close> and for the empty string. The
  \<^verbatim>\<open>context\<close> argument is unused and left out.
\<close>

definition lambda_handler_try ::
  "env \<Rightarrow> pydict \<Rightarrow> remote_call list \<Rightarrow> (exn + envelope) \<times> remote_call list" where
  "lambda_handler_try E event calls =
     (case json_dumps_event E event of
        Inl err \<Rightarrow> (Inl (encode_exn err), calls)
      | Inr logged \<Rightarrow>
          if map_of event ''httpMethod'' = Some (PStr ''OPTIONS'')
          then (Inr (create_response E 200
                       [(''message'', PStr ''CORS preflight successful'')] None),
                calls)
          else
            (case validate_request E event of
               Inl e \<Rightarrow> (Inl e, calls)
             | Inr None \<Rightarrow> process_prompt E event calls
             | Inr (Some validation_error) \<Rightarrow>
                 if validation_error \<noteq> []
                 then (Inr (create_response E 400
                              [(''error'', PStr ''Bad Request''),
                               (''message'', PStr validation_error)] None),
                       calls)
                 else process_prompt E event calls))"

text \<open>\<^verbatim>\<open>lambda_handler\<close>: the two \<^verbatim>\<open>except\<close> clauses (lines 257 to 269).\<close>

definition lambda_handler ::
  "env \<Rightarrow> pydict \<Rightarrow> remote_call list \<Rightarrow> (exn + envelope) \<times> remote_call list" where
  "lambda_handler E event calls =
     (case lambda_handler_try E event calls of
        (Inr r, calls') \<Rightarrow> (Inr r, calls')
      | (Inl JSONDecodeError, calls') \<Rightarrow>
          (Inr (create_response E 400
                  [(''error'', PStr ''Bad Request''),
                   (''message'', PStr ''Invalid JSON in request body'')] None),
           calls')
      | (Inl e, calls') \<Rightarrow>
          (Inr (create_response E 500
                  [(''error'', PStr ''Internal Server Error''),
                   (''message'', PStr ''An unexpected error occurred'')] None),
           calls'))"

section \<open>A stubbed environment\<close>

text \<open>
  The concrete environment of the examples below, in the manner of the mocks of
  \<^verbatim>\<open>src/tests/test_lambda_function.py\<close>. The serialiser \<open>stub_dumps\<close> writes a value the
  way \<^verbatim>\<open>json.dumps\<close> does by default: items separated by \<^verbatim>\<open>", "\<close>, keys by \<^verbatim>\<open>": "\<close>,
  strings in double quotes with every character outside the printable ASCII range
  escaped, integers in decimal. Of the floats it knows 0.7 only, and writes \<^verbatim>\<open>NaN\<close> for
  any other.
\<close>

definition hex_digit :: "nat \<Rightarrow> char" where
  "hex_digit n = ''0123456789abcdef'' ! n"

definition escape_char :: "char \<Rightarrow> string" where
  "escape_char c =
     (if c = CHR 0x22 then [CHR 0x5C, CHR 0x22]
      else if c = CHR 0x5C then [CHR 0x5C, CHR 0x5C]
      else if c = CHR 0x0A then [CHR 0x5C, CHR ''n'']
      else if c = CHR 0x0D then [CHR 0x5C, CHR ''r'']
      else if c = CHR 0x09 then [CHR 0x5C, CHR ''t'']
      else if c = CHR 0x08 then [CHR 0x5C, CHR ''b'']
      else if c = CHR 0x0C then [CHR 0x5C, CHR ''f'']
      else if (of_char c :: nat) < 32 \<or> 126 < (of_char c :: nat)
      then [CHR 0x5C, CHR ''u'', CHR ''0'', CHR ''0'',
            hex_digit (of_char c div 16), hex_digit (of_char c mod 16)]
      else [c])"

definition stub_dumps_str :: "string \<Rightarrow> string" where
  "stub_dumps_str s = [CHR 0x22] @ concat (map escape_char s) @ [CHR 0x22]"

fun decimal :: "nat \<Rightarrow> string" where
  "decimal n = (if n < 10 then [hex_digit n] else decimal (n div 10) @ [hex_digit (n mod 10)])"

declare decimal.simps [simp del]

definition stub_dumps_int :: "int \<Rightarrow> string" where
  "stub_dumps_int i = (if i < 0 then ''-'' @ decimal (nat (- i)) else decimal (nat i))"

definition stub_dumps_float :: "64 word \<Rightarrow> string" where
  "stub_dumps_float w = (if w = 0x3FE6666666666666 then ''0.7'' else ''NaN'')"

fun stub_dumps :: "pyval \<Rightarrow> string"
  and stub_dumps_items :: "pyval list \<Rightarrow> string"
  and stub_dumps_entries :: "(string \<times> pyval) list \<Rightarrow> string" where
  "stub_dumps PNone = ''null''"
| "stub_dumps (PBool b) = (if b then ''true'' else ''false'')"
| "stub_dumps (PInt i) = stub_dumps_int i"
| "stub_dumps (PFloat w) = stub_dumps_float w"
| "stub_dumps (PStr s) = stub_dumps_str s"
| "stub_dumps (PList xs) = ''['' @ stub_dumps_items xs @ '']''"
| "stub_dumps (PDict d) = ''{'' @ stub_dumps_entries d @ ''}''"
| "stub_dumps_items [] = []"
| "stub_dumps_items [x] = stub_dumps x"
| "stub_dumps_items (x # y # ys) = stub_dumps x @ '', '' @ stub_dumps_items (y # ys)"
| "stub_dumps_entries [] = []"
| "stub_dumps_entries [(k, v)] = stub_dumps_str k @ '': '' @ stub_dumps v"
| "stub_dumps_entries ((k, v) # e # es) =
     stub_dumps_str k @ '': '' @ stub_dumps v @ '', '' @ stub_dumps_entries (e # es)"

text \<open>
  CPython (3.11, and the security releases of the earlier versions) refuses to write an
  \<^verbatim>\<open>int\<close> of more than 4300 decimal digits: \<^verbatim>\<open>json.dumps\<close> raises \<^verbatim>\<open>ValueError\<close> on a value
  that holds one. \<open>int_limit\<close> says that a value holds such an integer.
\<close>

definition int_str_bound :: int where
  "int_str_bound = 10 ^ 4300"

fun int_limit :: "pyval \<Rightarrow> bool"
  and int_limit_items :: "pyval list \<Rightarrow> bool"
  and int_limit_entries :: "(string \<times> pyval) list \<Rightarrow> bool" where
  "int_limit (PInt i) = (int_str_bound \<le> \<bar>i\<bar>)"
| "int_limit (PList xs) = int_limit_items xs"
| "int_limit (PDict d) = int_limit_entries d"
| "int_limit PNone = False"
| "int_limit (PBool b) = False"
| "int_limit (PFloat w) = False"
| "int_limit (PStr s) = False"
| "int_limit_items [] = False"
| "int_limit_items (x # xs) = (int_limit x \<or> int_limit_items xs)"
| "int_limit_entries [] = False"
| "int_limit_entries ((k, v) # es) = (int_limit v \<or> int_limit_entries es)"

text \<open>
  The stubbed environment: the parser is a table from the texts an example uses to the
  values \<^verbatim>\<open>json.loads\<close> gives for them and reports a decode error on any other text, the
  remote service answers every call with the given outcome, the serialiser is
  \<open>stub_dumps\<close>, the event is written for the log unless it holds an integer beyond the
  limit, and the model identifier is the module's default.
\<close>

definition stub_env :: "(string \<times> pyval) list \<Rightarrow> exn + string \<Rightarrow> env" where
  "stub_env parses remote =
     \<lparr>json_loads = (\<lambda>s. case map_of parses s of
                           None \<Rightarrow> Inl JSONDecodeError
                         | Some v \<Rightarrow> Inr v),
      json_dumps = stub_dumps,
      json_dumps_event = (\<lambda>event. if int_limit (PDict event) then Inl EncodeValueError
                                   else Inr (stub_dumps (PDict event))),
      py_repr = (\<lambda>v. ''None''),
      invoke_model = (\<lambda>c. remote),
      BEDROCK_MODEL_ID = ''anthropic.claude-3-5-haiku-20241022-v1:0''\<rparr>"

text \<open>
  A text of a thousand opening brackets: it is no JSON, and on it \<^verbatim>\<open>json.loads\<close> raises
  \<^verbatim>\<open>RecursionError\<close>, not \<^verbatim>\<open>json.JSONDecodeError\<close>. \<open>stub_env_deep\<close> is the stubbed
  environment whose parser does so.
\<close>

definition deep_brackets :: string where
  "deep_brackets = replicate 1000 (CHR ''['')"

definition stub_env_deep :: env where
  "stub_env_deep =
     (stub_env [] (Inl BotoCoreError))
       \<lparr>json_loads := (\<lambda>s. if s = deep_brackets then Inl RecursionError
                             else Inl JSONDecodeError)\<rparr>"

text \<open>A request body \<^verbatim>\<open>{"prompt": "..."}\<close> and the event of a POST carrying a body.\<close>

definition prompt_json :: "string \<Rightarrow> string" where
  "prompt_json p = ''{\"prompt\": \"'' @ p @ ''\"}''"

definition post_event :: "string \<Rightarrow> pydict" where
  "post_event b = [(''httpMethod'', PStr ''POST''), (''body'', PStr b)]"

text \<open>
  The answer of the remote service in \<^verbatim>\<open>test_invoke_bedrock_model_success\<close>, as the text
  read from the response and as the value \<^verbatim>\<open>json.loads\<close> gives for it.
\<close>

definition sample_response :: string where
  "sample_response =
     ''{\"content\": [{\"text\": \"Hello! How can I help you today?\"}], \"usage\": {\"input_tokens\": 10, \"output_tokens\": 15}}''"

definition sample_response_value :: pyval where
  "sample_response_value =
     PDict [(''content'', PList [PDict [(''text'', PStr ''Hello! How can I help you today?'')]]),
            (''usage'', PDict [(''input_tokens'', PInt 10), (''output_tokens'', PInt 15)])]"

section \<open>Facts about the Python operations\<close>

lemma map_of_dict_update:
  "distinct (map fst other) \<Longrightarrow> map_of (dict_update d other) = map_of d ++ map_of other"
proof (induction other arbitrary: d)
  case Nil
  then show ?case by (simp add: dict_update_def)
next
  case (Cons p ps)
  obtain k v where p: "p = (k, v)" by (cases p)
  from Cons.prems p have k: "k \<notin> fst ` set ps" and d: "distinct (map fst ps)"
    by auto
  have "map_of (dict_update d (p # ps)) = map_of (dict_update (AList.update k v d) ps)"
    by (simp add: dict_update_def p)
  also have "\<dots> = map_of (AList.update k v d) ++ map_of ps"
    using Cons.IH [OF d] .
  also have "\<dots> = (map_of d)(k \<mapsto> v) ++ map_of ps"
    by (simp add: update_conv')
  also have "\<dots> = map_of d ++ map_of (p # ps)"
  proof (rule ext)
    fix x
    from k have "map_of ps k = None"
      by (simp add: map_of_eq_None_iff)
    then show "((map_of d)(k \<mapsto> v) ++ map_of ps) x = (map_of d ++ map_of (p # ps)) x"
      by (simp add: p map_add_def split: option.splits)
  qed
  finally show ?case .
qed

lemma py_getitem_dict:
  "py_getitem v k = Inr x \<longleftrightarrow> (\<exists>d. v = PDict d \<and> map_of d k = Some x)"
  by (cases v) (auto split: option.splits)

lemma py_getitem_not_decode [simp]: "py_getitem v k \<noteq> Inl JSONDecodeError"
  by (cases v) (auto split: option.splits)

lemma py_json_loads_Inr:
  "py_json_loads E b = Inr v \<Longrightarrow> \<exists>s. b = PStr s \<and> json_loads E s = Inr v"
  by (cases b) auto

lemma strip_replicate: "\<not> isspace c \<Longrightarrow> strip (replicate n c) = replicate n c"
  by (simp add: strip_def dropWhile_replicate)

lemma strip_replicate_space: "strip (replicate n (CHR '' '')) = []"
  by (simp add: strip_def dropWhile_replicate isspace_def)

lemma not_isspace_a: "\<not> isspace (CHR ''a'')"
  by (simp add: isspace_def)

lemma strip_Hello: "strip ''Hello'' = ''Hello''"
  by (simp add: strip_def isspace_def)

lemma strip_padded_Hello: "strip ''  Hello  '' = ''Hello''"
  by (simp add: strip_def isspace_def)

section \<open>Facts about the stubbed environment\<close>

lemma stub_loads_hit:
  "json_loads (stub_env [(k, v)] remote) k = Inr v"
  by (simp add: stub_env_def)

lemma post_event_body: "map_of (post_event b) ''body'' = Some (PStr b)"
  by (simp add: post_event_def)

lemma prompt_json_nonempty: "prompt_json p \<noteq> []"
  by (simp add: prompt_json_def)

lemma stub_model_id:
  "BEDROCK_MODEL_ID (stub_env parses remote) = ''anthropic.claude-3-5-haiku-20241022-v1:0''"
  by (simp add: stub_env_def)

lemma stub_invoke_model: "invoke_model (stub_env parses remote) c = remote"
  by (simp add: stub_env_def)

lemma stub_dumps_event:
  "\<not> int_limit (PDict event) \<Longrightarrow>
     json_dumps_event (stub_env parses remote) event = Inr (stub_dumps (PDict event))"
  by (simp add: stub_env_def)

lemma post_event_logged:
  "json_dumps_event (stub_env parses remote) (post_event b) =
     Inr (stub_dumps (PDict (post_event b)))"
  by (rule stub_dumps_event) (simp add: post_event_def)

lemma stub_json_dumps: "json_dumps (stub_env parses remote) = stub_dumps"
  by (simp add: stub_env_def)

lemmas stub_dumps_defs =
  stub_dumps_str_def stub_dumps_int_def stub_dumps_float_def escape_char_def
  decimal.simps hex_digit_def

section \<open>Facts about the validator\<close>

lemma create_response_None:
  "create_response E sc b None =
     \<lparr>statusCode = sc, headers = default_headers, body = json_dumps E (PDict b)\<rparr>"
  by (simp add: create_response_def)

lemma validate_request_try_dict:
  assumes "map_of event ''body'' = Some (PStr s)" and "s \<noteq> []"
    and "json_loads E s = Inr (PDict d)"
  shows "validate_request_try E event =
           Inr (case map_of d ''prompt'' of
                  None \<Rightarrow> Some ''Missing 'prompt' field in request body''
                | Some prompt \<Rightarrow>
                    (case prompt of
                       PStr p \<Rightarrow>
                         if strip p = [] then Some ''Prompt cannot be empty''
                         else if length p > 4000
                         then Some ''Prompt exceeds maximum length of 4000 characters''
                         else None
                     | _ \<Rightarrow> Some ''Prompt must be a string''))"
  using assms
  by (simp add: validate_request_try_def split: option.splits pyval.splits)

lemma validate_request_try_None:
  assumes "validate_request_try E event = Inr None"
  shows "\<exists>s d p. map_of event ''body'' = Some (PStr s) \<and> s \<noteq> [] \<and>
           json_loads E s = Inr (PDict d) \<and> map_of d ''prompt'' = Some (PStr p) \<and>
           strip p \<noteq> [] \<and> length p \<le> 4000"
proof -
  from assms obtain b where b: "map_of event ''body'' = Some b" and tb: "truthy b"
    by (auto simp: validate_request_try_def split: option.splits if_splits)
  from assms b tb obtain body' where l: "py_json_loads E b = Inr body'"
    by (auto simp: validate_request_try_def split: sum.splits exn.splits)
  from py_json_loads_Inr [OF l] obtain s where s: "b = PStr s" "json_loads E s = Inr body'"
    by blast
  from assms b tb l have r: "bind_exn (py_contains ''prompt'' body') (\<lambda>has_prompt.
                   if \<not> has_prompt then Inr (Some ''Missing 'prompt' field in request body'')
                   else
                     bind_exn (py_getitem body' ''prompt'') (\<lambda>prompt.
                       case prompt of
                         PStr p \<Rightarrow>
                           if strip p = [] then Inr (Some ''Prompt cannot be empty'')
                           else if length p > 4000
                           then Inr (Some ''Prompt exceeds maximum length of 4000 characters'')
                           else Inr None
                       | _ \<Rightarrow> Inr (Some ''Prompt must be a string''))) = Inr None"
    by (simp add: validate_request_try_def)
  then obtain v where v: "py_getitem body' ''prompt'' = Inr v"
    by (cases "py_contains ''prompt'' body'"; cases "py_getitem body' ''prompt''")
       (auto split: if_splits)
  then obtain d where d: "body' = PDict d" "map_of d ''prompt'' = Some v"
    by (auto simp: py_getitem_dict)
  from r v d obtain p where p: "v = PStr p" "strip p \<noteq> []" "length p \<le> 4000"
    by (cases v) (auto split: if_splits)
  from b tb s d p show ?thesis by auto
qed

lemma validate_request_total: "\<exists>r. validate_request E event = Inr r"
  by (simp add: validate_request_def split: sum.splits)

lemma validate_request_None:
  assumes "validate_request E event = Inr None"
  shows "\<exists>s d p. map_of event ''body'' = Some (PStr s) \<and> s \<noteq> [] \<and>
           json_loads E s = Inr (PDict d) \<and> map_of d ''prompt'' = Some (PStr p) \<and>
           strip p \<noteq> [] \<and> length p \<le> 4000"
proof -
  from assms have "validate_request_try E event = Inr None"
    by (simp add: validate_request_def split: sum.splits)
  then show ?thesis by (rule validate_request_try_None)
qed

lemma validate_request_dict:
  assumes "map_of event ''body'' = Some (PStr s)" and "s \<noteq> []"
    and "json_loads E s = Inr (PDict d)"
  shows "validate_request E event =
           Inr (case map_of d ''prompt'' of
                  None \<Rightarrow> Some ''Missing 'prompt' field in request body''
                | Some prompt \<Rightarrow>
                    (case prompt of
                       PStr p \<Rightarrow>
                         if strip p = [] then Some ''Prompt cannot be empty''
                         else if length p > 4000
                         then Some ''Prompt exceeds maximum length of 4000 characters''
                         else None
                     | _ \<Rightarrow> Some ''Prompt must be a string''))"
  by (simp add: validate_request_def validate_request_try_dict [OF assms])

lemma validate_request_try_nonempty: "validate_request_try E event \<noteq> Inr (Some [])"
proof (cases "map_of event ''body''")
  case None
  then show ?thesis by (simp add: validate_request_try_def)
next
  case (Some b)
  show ?thesis
  proof (cases "truthy b")
    case False
    with Some show ?thesis by (simp add: validate_request_try_def)
  next
    case True
    show ?thesis
    proof (cases "py_json_loads E b")
      case (Inl e)
      with Some True show ?thesis
        by (cases e) (simp_all add: validate_request_try_def)
    next
      case (Inr body')
      show ?thesis
      proof (cases "py_contains ''prompt'' body'")
        case (Inl e)
        with Some True Inr show ?thesis by (simp add: validate_request_try_def)
      next
        case has: (Inr has_prompt)
        show ?thesis
        proof (cases "py_getitem body' ''prompt''")
          case (Inl e)
          with Some True Inr has show ?thesis by (simp add: validate_request_try_def)
        next
          case v: (Inr v)
          with Some True Inr has show ?thesis
            by (cases v) (simp_all add: validate_request_try_def)
        qed
      qed
    qed
  qed
qed

lemma validate_request_nonempty: "validate_request E event \<noteq> Inr (Some [])"
  using validate_request_try_nonempty [of E event]
  by (cases "validate_request_try E event") (simp_all add: validate_request_def)

section \<open>Facts about the invoker and the handler\<close>

lemma client_error_result_not_decode: "client_error_result E response \<noteq> Inl JSONDecodeError"
proof (cases "py_getitem response ''Error''")
  case (Inl e)
  then show ?thesis using py_getitem_not_decode [of response "''Error''"]
    by (simp add: client_error_result_def)
next
  case err: (Inr err)
  show ?thesis
  proof (cases "py_getitem err ''Code''")
    case (Inl e)
    with err show ?thesis using py_getitem_not_decode [of err "''Code''"]
      by (simp add: client_error_result_def)
  next
    case code: (Inr code)
    show ?thesis
    proof (cases "py_getitem err ''Message''")
      case (Inl e)
      with err code show ?thesis using py_getitem_not_decode [of err "''Message''"]
        by (simp add: client_error_result_def)
    next
      case (Inr msg)
      with err code show ?thesis by (simp add: client_error_result_def)
    qed
  qed
qed

lemma invoke_bedrock_model_not_decode:
  "fst (invoke_bedrock_model E prompt calls) \<noteq> Inl JSONDecodeError"
  using client_error_result_not_decode
  by (simp add: invoke_bedrock_model_def split: sum.splits exn.splits)

lemma invoke_bedrock_model_calls:
  "snd (invoke_bedrock_model E prompt calls) = calls @ [bedrock_call E prompt]"
  by (simp add: invoke_bedrock_model_def)

lemma invoke_bedrock_model_try_dict:
  assumes "invoke_model E (bedrock_call E prompt) = Inr raw"
    and "json_loads E raw = Inr (PDict rb)"
  shows "invoke_bedrock_model_try E prompt =
           (case map_of rb ''content'' of
              None \<Rightarrow> Inr (failure_result ''Unexpected response format from AI model'')
            | Some content \<Rightarrow>
                bind_exn (py_len content) (\<lambda>n.
                  if n > 0 then
                    bind_exn (py_getitem0 content) (\<lambda>item.
                    bind_exn (py_getitem item ''text'') (\<lambda>generated_text.
                      Inr (success_result E generated_text
                             (case map_of rb ''usage'' of None \<Rightarrow> PDict [] | Some u \<Rightarrow> u))))
                  else Inr (failure_result ''Unexpected response format from AI model'')))"
proof (cases "map_of rb ''content''")
  case None
  with assms show ?thesis by (simp add: invoke_bedrock_model_try_def)
next
  case (Some content)
  show ?thesis
  proof (cases "py_len content")
    case (Inl e)
    with assms Some show ?thesis by (simp add: invoke_bedrock_model_try_def)
  next
    case (Inr n)
    with assms Some show ?thesis by (simp add: invoke_bedrock_model_try_def)
  qed
qed

lemma bedrock_envelope_not_decode: "bedrock_envelope E r \<noteq> Inl JSONDecodeError"
  by (simp add: bedrock_envelope_def split: option.splits)

lemma bedrock_envelope_shape:
  assumes "bedrock_envelope E r = Inr env"
  shows "\<exists>sc b. env = create_response E sc b None \<and> (sc = 200 \<or> sc = 500)"
  using assms
  by (auto simp: bedrock_envelope_def split: option.splits if_splits)

lemma bedrock_envelope_success:
  "bedrock_envelope E (success_result E text usage) =
     Inr (create_response E 200
            [(''message'', PStr ''Success''),
             (''response'', text),
             (''model_id'', PStr (BEDROCK_MODEL_ID E)),
             (''usage'', usage)] None)"
  by (simp add: bedrock_envelope_def success_result_def)

lemma bedrock_envelope_failure:
  "bedrock_envelope E (failure_result msg) =
     Inr (create_response E 500
            [(''error'', PStr ''Internal Server Error''), (''message'', PStr msg)] None)"
  by (simp add: bedrock_envelope_def failure_result_def)

lemma process_prompt_valid:
  assumes "map_of event ''body'' = Some (PStr s)" and "json_loads E s = Inr (PDict d)"
    and "map_of d ''prompt'' = Some (PStr p)"
  shows "process_prompt E event calls =
           (case invoke_bedrock_model E (strip p) calls of
              (Inl e, calls') \<Rightarrow> (Inl e, calls')
            | (Inr bedrock_response, calls') \<Rightarrow> (bedrock_envelope E bedrock_response, calls'))"
  using assms by (simp add: process_prompt_def)

lemma encode_exn_not_decode [simp]: "encode_exn err \<noteq> JSONDecodeError"
  by (cases err) simp_all

lemma lambda_handler_try_log_raises:
  assumes "json_dumps_event E event = Inl err"
  shows "lambda_handler_try E event calls = (Inl (encode_exn err), calls)"
  using assms by (simp add: lambda_handler_try_def)

lemma lambda_handler_try_logged:
  assumes "json_dumps_event E event = Inr logged"
  shows "lambda_handler_try E event calls =
     (if map_of event ''httpMethod'' = Some (PStr ''OPTIONS'')
      then (Inr (create_response E 200
                   [(''message'', PStr ''CORS preflight successful'')] None),
            calls)
      else
        (case validate_request E event of
           Inl e \<Rightarrow> (Inl e, calls)
         | Inr None \<Rightarrow> process_prompt E event calls
         | Inr (Some validation_error) \<Rightarrow>
             if validation_error \<noteq> []
             then (Inr (create_response E 400
                          [(''error'', PStr ''Bad Request''),
                           (''message'', PStr validation_error)] None),
                   calls)
             else process_prompt E event calls))"
  using assms by (simp add: lambda_handler_try_def)

lemma lambda_handler_try_valid:
  assumes "json_dumps_event E event = Inr logged"
    and "map_of event ''httpMethod'' \<noteq> Some (PStr ''OPTIONS'')"
    and "validate_request E event = Inr None"
  shows "lambda_handler_try E event calls = process_prompt E event calls"
  using assms(2,3) by (simp add: lambda_handler_try_logged [OF assms(1)])

lemma process_prompt_not_decode:
  assumes "validate_request E event = Inr None"
  shows "fst (process_prompt E event calls) \<noteq> Inl JSONDecodeError"
proof -
  from validate_request_None [OF assms] obtain s d p where
    "map_of event ''body'' = Some (PStr s)" "json_loads E s = Inr (PDict d)"
    "map_of d ''prompt'' = Some (PStr p)"
    by blast
  then have "process_prompt E event calls =
           (case invoke_bedrock_model E (strip p) calls of
              (Inl e, calls') \<Rightarrow> (Inl e, calls')
            | (Inr bedrock_response, calls') \<Rightarrow> (bedrock_envelope E bedrock_response, calls'))"
    by (rule process_prompt_valid)
  then show ?thesis
    using invoke_bedrock_model_not_decode [of E "strip p" calls]
      bedrock_envelope_not_decode [of E]
    by (cases "invoke_bedrock_model E (strip p) calls") (auto split: sum.splits)
qed

lemma lambda_handler_try_not_decode:
  "fst (lambda_handler_try E event calls) \<noteq> Inl JSONDecodeError"
proof (cases "json_dumps_event E event")
  case (Inl err)
  then show ?thesis by (simp add: lambda_handler_try_log_raises)
next
  case logged: (Inr logged)
  note unfold = lambda_handler_try_logged [OF logged]
  show ?thesis
  proof (cases "map_of event ''httpMethod'' = Some (PStr ''OPTIONS'')")
    case True
    then show ?thesis by (simp add: unfold)
  next
    case False
    from validate_request_total obtain r where r: "validate_request E event = Inr r"
      by blast
    show ?thesis
    proof (cases r)
      case None
      with r False process_prompt_not_decode [of E event calls] show ?thesis
        by (simp add: unfold)
    next
      case (Some m)
      with r validate_request_nonempty [of E event] have "m \<noteq> []" by auto
      with r Some False show ?thesis by (simp add: unfold)
    qed
  qed
qed

lemma lambda_handler_try_shape:
  assumes "fst (lambda_handler_try E event calls) = Inr env"
  shows "\<exists>sc b. env = create_response E sc b None \<and> (sc = 200 \<or> sc = 400 \<or> sc = 500)"
proof (cases "json_dumps_event E event")
  case (Inl err)
  with assms show ?thesis by (simp add: lambda_handler_try_log_raises)
next
  case logged: (Inr logged)
  note unfold = lambda_handler_try_logged [OF logged]
  show ?thesis
  proof (cases "map_of event ''httpMethod'' = Some (PStr ''OPTIONS'')")
    case True
    with assms show ?thesis by (auto simp: unfold)
  next
    case False
    from validate_request_total obtain r where r: "validate_request E event = Inr r"
      by blast
    show ?thesis
    proof (cases r)
      case None
      from validate_request_None [OF r [unfolded None]] obtain s d p where
        "map_of event ''body'' = Some (PStr s)" "json_loads E s = Inr (PDict d)"
        "map_of d ''prompt'' = Some (PStr p)"
        by blast
      then have "process_prompt E event calls =
             (case invoke_bedrock_model E (strip p) calls of
                (Inl e, calls') \<Rightarrow> (Inl e, calls')
              | (Inr bedrock_response, calls') \<Rightarrow>
                  (bedrock_envelope E bedrock_response, calls'))"
        by (rule process_prompt_valid)
      with assms r None False obtain br where "bedrock_envelope E br = Inr env"
        by (cases "invoke_bedrock_model E (strip p) calls")
           (auto simp: unfold split: sum.splits)
      from bedrock_envelope_shape [OF this] show ?thesis by blast
    next
      case (Some m)
      with r validate_request_nonempty [of E event] have "m \<noteq> []" by auto
      with assms r Some False show ?thesis by (auto simp: unfold)
    qed
  qed
qed

lemma lambda_handler_valid:
  assumes "json_dumps_event E event = Inr logged"
    and "map_of event ''httpMethod'' \<noteq> Some (PStr ''OPTIONS'')"
    and "map_of event ''body'' = Some (PStr s)" and "s \<noteq> []"
    and "json_loads E s = Inr (PDict d)" and "map_of d ''prompt'' = Some (PStr p)"
    and "strip p \<noteq> []" and "length p \<le> 4000"
    and "fst (invoke_bedrock_model E (strip p) calls) = Inr r"
    and "bedrock_envelope E r = Inr env"
  shows "lambda_handler E event calls = (Inr env, calls @ [bedrock_call E (strip p)])"
proof -
  from assms have v: "validate_request E event = Inr None"
    by (simp add: validate_request_dict [OF assms(3,4,5)])
  from assms(9) have "lambda_handler_try E event calls =
      (bedrock_envelope E r, snd (invoke_bedrock_model E (strip p) calls))"
    using lambda_handler_try_valid [OF assms(1,2) v] process_prompt_valid [OF assms(3,5,6)]
    by (cases "invoke_bedrock_model E (strip p) calls") simp
  with assms(10) show ?thesis
    by (simp add: lambda_handler_def invoke_bedrock_model_calls)
qed

lemma bedrock_call_content:
  "bedrock_call E prompt =
     (BEDROCK_MODEL_ID E,
      json_dumps E (PDict
        [(''anthropic_version'', PStr ''bedrock-2023-05-31''),
         (''max_tokens'', PInt 4000),
         (''temperature'', PFloat 0x3FE6666666666666),
         (''messages'', PList [PDict [(''role'', PStr ''user''), (''content'', PStr prompt)]])]),
      ''application/json'', ''application/json'')"
  by (simp add: bedrock_call_def request_body_def MAX_TOKENS_def TEMPERATURE_def)

lemmas handler_defs =
  lambda_handler_def lambda_handler_try_def process_prompt_def bedrock_envelope_def
  validate_request_def validate_request_try_def
  invoke_bedrock_model_def invoke_bedrock_model_try_def client_error_result_def
  success_result_def failure_result_def

lemmas stub_defs = stub_env_def post_event_def prompt_json_def

section \<open>Tests of the repository, replayed on the model\<close>

lemma test_validate_request_missing_body:
  "validate_request (stub_env [] (Inl BotoCoreError)) [] =
     Inr (Some ''Request body is required'')"
  by (simp add: validate_request_def validate_request_try_def)

lemma test_validate_request_empty_body:
  "validate_request (stub_env [] (Inl BotoCoreError)) [(''body'', PStr [])] =
     Inr (Some ''Request body is required'')"
  by (simp add: validate_request_def validate_request_try_def)

lemma test_validate_request_missing_prompt:
  "validate_request
     (stub_env [(''{\"message\": \"hello\"}'', PDict [(''message'', PStr ''hello'')])]
        (Inl BotoCoreError))
     [(''body'', PStr ''{\"message\": \"hello\"}'')] =
     Inr (Some ''Missing 'prompt' field in request body'')"
  by (simp add: validate_request_def validate_request_try_def stub_env_def)

lemma test_validate_request_non_string_prompt:
  "validate_request
     (stub_env [(''{\"prompt\": 123}'', PDict [(''prompt'', PInt 123)])] (Inl BotoCoreError))
     [(''body'', PStr ''{\"prompt\": 123}'')] =
     Inr (Some ''Prompt must be a string'')"
  by (simp add: validate_request_def validate_request_try_def stub_env_def)

lemma test_invoke_bedrock_model_botocore_error:
  "fst (invoke_bedrock_model (stub_env [] (Inl BotoCoreError)) ''Hello'' []) =
     Inr [(''success'', PBool False),
          (''error'', PStr ''Network or configuration error accessing Bedrock service'')]"
  by (simp add: invoke_bedrock_model_def invoke_bedrock_model_try_def failure_result_def
      stub_env_def)

lemma test_lambda_handler_invalid_request:
  "fst (lambda_handler (stub_env [] (Inl BotoCoreError)) [(''body'', PStr ''invalid json'')] []) =
     Inr (create_response (stub_env [] (Inl BotoCoreError)) 400
            [(''error'', PStr ''Bad Request''),
             (''message'', PStr ''Invalid JSON in request body'')] None)"
  by (simp add: lambda_handler_def lambda_handler_try_def validate_request_def
      validate_request_try_def stub_env_def)

section \<open>The handler always answers\<close>

text \<open>
  Claim C1. For every event the handler returns one response envelope and raises
  nothing: the envelope is built by \<^verbatim>\<open>create_response\<close> with the default headers, a
  body serialised by \<^verbatim>\<open>json.dumps\<close> and status 200, 400 or 500. Whenever the body of the
  handler's \<^verbatim>\<open>try\<close> block raises an exception (one that no inner function caught), the
  envelope is the 500 one with error \<^verbatim>\<open>Internal Server Error\<close> and message
  \<^verbatim>\<open>An unexpected error occurred\<close>; the \<^verbatim>\<open>except json.JSONDecodeError\<close> clause is never
  the one taken. The calls sent to the remote service are those of the block.
\<close>

theorem lambda_handler_always_responds:
  "\<exists>sc b. lambda_handler E event calls =
            (Inr (create_response E sc b None), snd (lambda_handler_try E event calls)) \<and>
     (sc = 200 \<or> sc = 400 \<or> sc = 500) \<and>
     (\<forall>e. fst (lambda_handler_try E event calls) = Inl e \<longrightarrow>
        sc = 500 \<and>
        b = [(''error'', PStr ''Internal Server Error''),
             (''message'', PStr ''An unexpected error occurred'')])"
proof (cases "fst (lambda_handler_try E event calls)")
  case (Inl e)
  with lambda_handler_try_not_decode [of E event calls] have "e \<noteq> JSONDecodeError"
    by auto
  with Inl have "lambda_handler E event calls =
      (Inr (create_response E 500
              [(''error'', PStr ''Internal Server Error''),
               (''message'', PStr ''An unexpected error occurred'')] None),
       snd (lambda_handler_try E event calls))"
    by (cases "lambda_handler_try E event calls"; cases e) (simp_all add: lambda_handler_def)
  then show ?thesis by blast
next
  case (Inr env)
  from lambda_handler_try_shape [OF Inr] obtain sc b where
    "env = create_response E sc b None" "sc = 200 \<or> sc = 400 \<or> sc = 500"
    by blast
  moreover from Inr have "lambda_handler E event calls =
      (Inr env, snd (lambda_handler_try E event calls))"
    by (cases "lambda_handler_try E event calls") (simp add: lambda_handler_def)
  ultimately show ?thesis using Inr by auto
qed

text \<open>
  An instance: the remote service raises a \<^verbatim>\<open>ClientError\<close> whose response lacks the
  \<^verbatim>\<open>Error\<close> entry, the \<^verbatim>\<open>KeyError\<close> leaves \<^verbatim>\<open>invoke_bedrock_model\<close>, and the handler
  answers with the generic 500 envelope.
\<close>

theorem lambda_handler_always_responds_witness:
  "fst (lambda_handler_try
          (stub_env [(prompt_json ''Hello'', PDict [(''prompt'', PStr ''Hello'')])]
             (Inl (ClientError (PDict []))))
          (post_event (prompt_json ''Hello'')) []) = Inl KeyError \<and>
   fst (lambda_handler
          (stub_env [(prompt_json ''Hello'', PDict [(''prompt'', PStr ''Hello'')])]
             (Inl (ClientError (PDict []))))
          (post_event (prompt_json ''Hello'')) []) =
     Inr (create_response
            (stub_env [(prompt_json ''Hello'', PDict [(''prompt'', PStr ''Hello'')])]
               (Inl (ClientError (PDict []))))
            500
            [(''error'', PStr ''Internal Server Error''),
             (''message'', PStr ''An unexpected error occurred'')] None)"
proof -
  let ?E = "stub_env [(prompt_json ''Hello'', PDict [(''prompt'', PStr ''Hello'')])]
              (Inl (ClientError (PDict [])))"
  let ?ev = "post_event (prompt_json ''Hello'')"
  have raised: "fst (lambda_handler_try ?E ?ev []) = Inl KeyError"
    by (simp add: handler_defs stub_defs strip_Hello)
  from lambda_handler_always_responds [of ?E ?ev "[]"] raised show ?thesis
    by auto
qed

section \<open>The six checks of the validator\<close>

text \<open>
  Claim C2, as stated, says that for every event the answer of \<^verbatim>\<open>validate_request\<close> is
  the message of the first failing check, or \<^verbatim>\<open>None\<close>. The body \<^verbatim>\<open>123\<close> is present,
  non-empty and parses as JSON, to the number 123; the test \<^verbatim>\<open>'prompt' not in body\<close> then
  raises \<^verbatim>\<open>TypeError\<close>, and the function returns \<^verbatim>\<open>Invalid request format\<close>, which is the
  message of none of the six checks.
\<close>

theorem validate_request_no_catch_all_counterexample:
  "map_of (post_event ''123'') ''body'' = Some (PStr ''123'') \<and>
   json_loads (stub_env [(''123'', PInt 123)] (Inl BotoCoreError)) ''123'' = Inr (PInt 123) \<and>
   validate_request (stub_env [(''123'', PInt 123)] (Inl BotoCoreError)) (post_event ''123'') =
     Inr (Some ''Invalid request format'') \<and>
   ''Invalid request format'' \<notin> set
     [''Request body is required'', ''Invalid JSON in request body'',
      ''Missing 'prompt' field in request body'', ''Prompt must be a string'',
      ''Prompt cannot be empty'', ''Prompt exceeds maximum length of 4000 characters'']"
  by (simp add: validate_request_def validate_request_try_def stub_env_def post_event_def)

text \<open>
  Claim C2, amended. The six checks are applied in order and the first failing one
  gives the answer, whenever the body is absent or empty, is a text on which the
  parser reports a decode error, or is a text that parses to a mapping: an absent or
  empty body is required; a decode error is invalid JSON; on a mapping, a missing key
  \<^verbatim>\<open>prompt\<close> comes first, then a prompt that is no string, then a prompt that is empty
  once trimmed (whatever its length), then an untrimmed length above 4000, and
  otherwise the answer is \<^verbatim>\<open>None\<close>.
\<close>

theorem validate_request_six_checks:
  "(map_of event ''body'' = None \<or> (\<exists>b. map_of event ''body'' = Some b \<and> \<not> truthy b) \<longrightarrow>
      validate_request E event = Inr (Some ''Request body is required'')) \<and>
   (\<forall>s. map_of event ''body'' = Some (PStr s) \<and> s \<noteq> [] \<and>
        json_loads E s = Inl JSONDecodeError \<longrightarrow>
      validate_request E event = Inr (Some ''Invalid JSON in request body'')) \<and>
   (\<forall>s d. map_of event ''body'' = Some (PStr s) \<and> s \<noteq> [] \<and>
        json_loads E s = Inr (PDict d) \<longrightarrow>
      validate_request E event =
        Inr (case map_of d ''prompt'' of
               None \<Rightarrow> Some ''Missing 'prompt' field in request body''
             | Some (PStr p) \<Rightarrow>
                 if strip p = [] then Some ''Prompt cannot be empty''
                 else if length p > 4000
                 then Some ''Prompt exceeds maximum length of 4000 characters''
                 else None
             | Some _ \<Rightarrow> Some ''Prompt must be a string''))"
proof (intro conjI allI impI)
  assume "map_of event ''body'' = None \<or> (\<exists>b. map_of event ''body'' = Some b \<and> \<not> truthy b)"
  then show "validate_request E event = Inr (Some ''Request body is required'')"
    by (auto simp: validate_request_def validate_request_try_def)
next
  fix s
  assume "map_of event ''body'' = Some (PStr s) \<and> s \<noteq> [] \<and>
        json_loads E s = Inl JSONDecodeError"
  then show "validate_request E event = Inr (Some ''Invalid JSON in request body'')"
    by (simp add: validate_request_def validate_request_try_def)
next
  fix s d
  assume a: "map_of event ''body'' = Some (PStr s) \<and> s \<noteq> [] \<and>
        json_loads E s = Inr (PDict d)"
  then have "validate_request E event =
           Inr (case map_of d ''prompt'' of
                  None \<Rightarrow> Some ''Missing 'prompt' field in request body''
                | Some prompt \<Rightarrow>
                    (case prompt of
                       PStr p \<Rightarrow>
                         if strip p = [] then Some ''Prompt cannot be empty''
                         else if length p > 4000
                         then Some ''Prompt exceeds maximum length of 4000 characters''
                         else None
                     | _ \<Rightarrow> Some ''Prompt must be a string''))"
    by (simp add: validate_request_dict)
  then show "validate_request E event =
        Inr (case map_of d ''prompt'' of
               None \<Rightarrow> Some ''Missing 'prompt' field in request body''
             | Some (PStr p) \<Rightarrow>
                 if strip p = [] then Some ''Prompt cannot be empty''
                 else if length p > 4000
                 then Some ''Prompt exceeds maximum length of 4000 characters''
                 else None
             | Some _ \<Rightarrow> Some ''Prompt must be a string'')"
    by (simp split: option.splits pyval.splits)
qed

text \<open>An instance: a prompt of 5000 spaces is rejected as empty, not as too long.\<close>

theorem validate_request_six_checks_witness:
  "validate_request
     (stub_env [(prompt_json (replicate 5000 (CHR '' '')),
                 PDict [(''prompt'', PStr (replicate 5000 (CHR '' '')))])] (Inl BotoCoreError))
     (post_event (prompt_json (replicate 5000 (CHR '' '')))) =
   Inr (Some ''Prompt cannot be empty'')"
proof -
  let ?p = "replicate 5000 (CHR '' '')"
  let ?E = "stub_env [(prompt_json ?p, PDict [(''prompt'', PStr ?p)])] (Inl BotoCoreError)"
  let ?ev = "post_event (prompt_json ?p)"
  have body: "map_of ?ev ''body'' = Some (PStr (prompt_json ?p))"
    by (simp add: post_event_def)
  have ne: "prompt_json ?p \<noteq> []"
    by (simp add: prompt_json_def)
  have l: "json_loads ?E (prompt_json ?p) = Inr (PDict [(''prompt'', PStr ?p)])"
    by (simp add: stub_env_def)
  from validate_request_six_checks [of ?ev ?E] body ne l
  have "validate_request ?E ?ev =
        Inr (case map_of [(''prompt'', PStr ?p)] ''prompt'' of
               None \<Rightarrow> Some ''Missing 'prompt' field in request body''
             | Some (PStr p) \<Rightarrow>
                 if strip p = [] then Some ''Prompt cannot be empty''
                 else if length p > 4000
                 then Some ''Prompt exceeds maximum length of 4000 characters''
                 else None
             | Some _ \<Rightarrow> Some ''Prompt must be a string'')"
    by blast
  then show ?thesis by (simp add: strip_replicate_space)
qed

section \<open>A successful answer of the model\<close>

text \<open>
  Claim C3. When the remote call returns a text that parses to a mapping whose
  \<^verbatim>\<open>content\<close> is a list with a first item holding a \<^verbatim>\<open>text\<close>, \<^verbatim>\<open>invoke_bedrock_model\<close>
  returns the success dict with that text, the model identifier and the \<^verbatim>\<open>usage\<close> entry
  of the response (the empty dict when there is none). The handler surfaces that dict
  (lines 242 to 249) as the 200 envelope with the body
  \<^verbatim>\<open>{message: "Success", response, model_id, usage}\<close> built from those values; and for
  every event that the opening log statement can write, that is no preflight and that
  carries a valid request whose trimmed prompt is the one sent, this envelope is the
  answer of the handler.
\<close>

theorem success_is_surfaced_as_200:
  assumes "invoke_model E (bedrock_call E prompt) = Inr raw"
    and "json_loads E raw = Inr (PDict rb)"
    and "map_of rb ''content'' = Some (PList (PDict item # items))"
    and "map_of item ''text'' = Some text"
  shows "fst (invoke_bedrock_model E prompt calls) =
           Inr [(''success'', PBool True),
                (''response'', text),
                (''model_id'', PStr (BEDROCK_MODEL_ID E)),
                (''usage'', case map_of rb ''usage'' of None \<Rightarrow> PDict [] | Some u \<Rightarrow> u)] \<and>
         bedrock_envelope E
           [(''success'', PBool True),
            (''response'', text),
            (''model_id'', PStr (BEDROCK_MODEL_ID E)),
            (''usage'', case map_of rb ''usage'' of None \<Rightarrow> PDict [] | Some u \<Rightarrow> u)] =
           Inr \<lparr>statusCode = 200, headers = default_headers,
                 body = json_dumps E (PDict
                   [(''message'', PStr ''Success''),
                    (''response'', text),
                    (''model_id'', PStr (BEDROCK_MODEL_ID E)),
                    (''usage'', case map_of rb ''usage'' of
                                  None \<Rightarrow> PDict [] | Some u \<Rightarrow> u)])\<rparr> \<and>
         (\<forall>event logged s d p.
            json_dumps_event E event = Inr logged \<and>
            map_of event ''httpMethod'' \<noteq> Some (PStr ''OPTIONS'') \<and>
            map_of event ''body'' = Some (PStr s) \<and> s \<noteq> [] \<and>
            json_loads E s = Inr (PDict d) \<and> map_of d ''prompt'' = Some (PStr p) \<and>
            strip p = prompt \<and> prompt \<noteq> [] \<and> length p \<le> 4000 \<longrightarrow>
            fst (lambda_handler E event calls) =
              Inr \<lparr>statusCode = 200, headers = default_headers,
                    body = json_dumps E (PDict
                      [(''message'', PStr ''Success''),
                       (''response'', text),
                       (''model_id'', PStr (BEDROCK_MODEL_ID E)),
                       (''usage'', case map_of rb ''usage'' of
                                     None \<Rightarrow> PDict [] | Some u \<Rightarrow> u)])\<rparr>)"
proof -
  let ?usage = "case map_of rb ''usage'' of None \<Rightarrow> PDict [] | Some u \<Rightarrow> u"
  let ?envelope = "create_response E 200
            [(''message'', PStr ''Success''),
             (''response'', text),
             (''model_id'', PStr (BEDROCK_MODEL_ID E)),
             (''usage'', ?usage)] None"
  have inv: "fst (invoke_bedrock_model E prompt calls) = Inr (success_result E text ?usage)"
    for calls
    using assms(3,4)
    by (simp add: invoke_bedrock_model_def invoke_bedrock_model_try_dict [OF assms(1,2)])
  have env: "bedrock_envelope E (success_result E text ?usage) = Inr ?envelope"
    by (rule bedrock_envelope_success)
  have "fst (lambda_handler E event calls) = Inr ?envelope"
    if "json_dumps_event E event = Inr logged"
      "map_of event ''httpMethod'' \<noteq> Some (PStr ''OPTIONS'')"
      "map_of event ''body'' = Some (PStr s)" "s \<noteq> []"
      "json_loads E s = Inr (PDict d)" "map_of d ''prompt'' = Some (PStr p)"
      "strip p = prompt" "prompt \<noteq> []" "length p \<le> 4000"
    for event logged s d p
  proof -
    from that have ne: "strip p \<noteq> []" by simp
    from that inv have i: "fst (invoke_bedrock_model E (strip p) calls) =
        Inr (success_result E text ?usage)"
      by simp
    from lambda_handler_valid [OF that(1,2,3,4,5,6) ne that(9) i env]
    show ?thesis by simp
  qed
  with inv env show ?thesis
    by (simp add: success_result_def create_response_None)
qed

text \<open>An instance: the response of \<^verbatim>\<open>test_invoke_bedrock_model_success\<close>.\<close>

theorem success_is_surfaced_as_200_witness:
  "fst (invoke_bedrock_model
          (stub_env [(prompt_json ''Hello'', PDict [(''prompt'', PStr ''Hello'')]),
                     (sample_response, sample_response_value)] (Inr sample_response))
          ''Hello'' []) =
     Inr [(''success'', PBool True),
          (''response'', PStr ''Hello! How can I help you today?''),
          (''model_id'', PStr ''anthropic.claude-3-5-haiku-20241022-v1:0''),
          (''usage'', PDict [(''input_tokens'', PInt 10), (''output_tokens'', PInt 15)])] \<and>
   fst (lambda_handler
          (stub_env [(prompt_json ''Hello'', PDict [(''prompt'', PStr ''Hello'')]),
                     (sample_response, sample_response_value)] (Inr sample_response))
          (post_event (prompt_json ''Hello'')) []) =
     Inr \<lparr>statusCode = 200, headers = default_headers,
           body = ''{\"message\": \"Success\", \"response\": \"Hello! How can I help you today?\", \"model_id\": \"anthropic.claude-3-5-haiku-20241022-v1:0\", \"usage\": {\"input_tokens\": 10, \"output_tokens\": 15}}''\<rparr>"
proof -
  let ?E = "stub_env [(prompt_json ''Hello'', PDict [(''prompt'', PStr ''Hello'')]),
                     (sample_response, sample_response_value)] (Inr sample_response)"
  let ?ev = "post_event (prompt_json ''Hello'')"
  let ?rb = "[(''content'', PList [PDict [(''text'', PStr ''Hello! How can I help you today?'')]]),
              (''usage'', PDict [(''input_tokens'', PInt 10), (''output_tokens'', PInt 15)])]"
  have neq: "sample_response \<noteq> prompt_json ''Hello''"
    by (simp add: sample_response_def prompt_json_def)
  have 1: "invoke_model ?E (bedrock_call ?E ''Hello'') = Inr sample_response"
    by (rule stub_invoke_model)
  have 2: "json_loads ?E sample_response = Inr (PDict ?rb)"
    using neq by (simp add: stub_env_def sample_response_value_def)
  have 3: "map_of ?rb ''content'' =
           Some (PList (PDict [(''text'', PStr ''Hello! How can I help you today?'')] # []))"
    by simp
  have 4: "map_of [(''text'', PStr ''Hello! How can I help you today?'')] ''text'' =
             Some (PStr ''Hello! How can I help you today?'')"
    by simp
  have ev: "json_dumps_event ?E ?ev = Inr (stub_dumps (PDict ?ev))"
    "map_of ?ev ''httpMethod'' \<noteq> Some (PStr ''OPTIONS'')"
    "map_of ?ev ''body'' = Some (PStr (prompt_json ''Hello''))"
    "prompt_json ''Hello'' \<noteq> []"
    "json_loads ?E (prompt_json ''Hello'') = Inr (PDict [(''prompt'', PStr ''Hello'')])"
    "map_of [(''prompt'', PStr ''Hello'')] ''prompt'' = Some (PStr ''Hello'')"
    "strip ''Hello'' = ''Hello''" "''Hello'' \<noteq> []" "length ''Hello'' \<le> 4000"
    by (simp_all add: post_event_logged post_event_def prompt_json_nonempty stub_env_def
        strip_Hello)
  note inst = success_is_surfaced_as_200 [OF 1 2 3 4, of "[]"]
  from inst have a: "fst (invoke_bedrock_model ?E ''Hello'' []) =
     Inr [(''success'', PBool True),
          (''response'', PStr ''Hello! How can I help you today?''),
          (''model_id'', PStr ''anthropic.claude-3-5-haiku-20241022-v1:0''),
          (''usage'', PDict [(''input_tokens'', PInt 10), (''output_tokens'', PInt 15)])]"
    by (simp add: stub_model_id)
  from inst ev have "fst (lambda_handler ?E ?ev []) =
     Inr \<lparr>statusCode = 200, headers = default_headers,
           body = json_dumps ?E (PDict
               [(''message'', PStr ''Success''),
                (''response'', PStr ''Hello! How can I help you today?''),
                (''model_id'', PStr (BEDROCK_MODEL_ID ?E)),
                (''usage'', case map_of ?rb ''usage'' of None \<Rightarrow> PDict [] | Some u \<Rightarrow> u)])\<rparr>"
    by blast
  then have b: "fst (lambda_handler ?E ?ev []) =
     Inr \<lparr>statusCode = 200, headers = default_headers,
           body = ''{\"message\": \"Success\", \"response\": \"Hello! How can I help you today?\", \"model_id\": \"anthropic.claude-3-5-haiku-20241022-v1:0\", \"usage\": {\"input_tokens\": 10, \"output_tokens\": 15}}''\<rparr>"
    by (simp add: stub_model_id stub_json_dumps stub_dumps_defs)
  from a b show ?thesis by (rule conjI)
qed

section \<open>Errors of the remote service\<close>

text \<open>
  Claim C4. When the remote call raises a \<^verbatim>\<open>ClientError\<close> whose response carries an
  \<^verbatim>\<open>Error\<close> entry with a \<^verbatim>\<open>Code\<close> and a \<^verbatim>\<open>Message\<close>, \<^verbatim>\<open>invoke_bedrock_model\<close> raises nothing
  and returns the failure dict whose message the code selects: the three fixed texts
  for \<^verbatim>\<open>AccessDeniedException\<close>, \<^verbatim>\<open>ValidationException\<close> and \<^verbatim>\<open>ThrottlingException\<close>, and
  \<^verbatim>\<open>Bedrock service error: \<close> followed by the message of the service for any other code.
\<close>

theorem client_error_messages:
  assumes "invoke_model E (bedrock_call E prompt) = Inl (ClientError (PDict response))"
    and "map_of response ''Error'' = Some (PDict err)"
    and "map_of err ''Code'' = Some (PStr code)"
    and "map_of err ''Message'' = Some (PStr message)"
  shows "fst (invoke_bedrock_model E prompt calls) =
           Inr [(''success'', PBool False),
                (''error'', PStr
                   (if code = ''AccessDeniedException''
                    then ''Access denied to Bedrock model. Please check IAM permissions.''
                    else if code = ''ValidationException''
                    then ''Invalid request to Bedrock model.''
                    else if code = ''ThrottlingException''
                    then ''Request throttled. Please try again later.''
                    else ''Bedrock service error: '' @ message))]"
  using assms
  by (simp add: invoke_bedrock_model_def invoke_bedrock_model_try_def client_error_result_def
      failure_result_def)

text \<open>
  Two instances: the error of \<^verbatim>\<open>test_invoke_bedrock_model_throttling\<close>, and a code
  outside the three known ones.
\<close>

theorem client_error_messages_witness:
  "fst (invoke_bedrock_model
          (stub_env []
             (Inl (ClientError (PDict [(''Error'',
                PDict [(''Code'', PStr ''ThrottlingException''),
                       (''Message'', PStr ''Request throttled'')])]))))
          ''Hello'' []) =
     Inr [(''success'', PBool False),
          (''error'', PStr ''Request throttled. Please try again later.'')] \<and>
   fst (invoke_bedrock_model
          (stub_env []
             (Inl (ClientError (PDict [(''Error'',
                PDict [(''Code'', PStr ''ServiceUnavailableException''),
                       (''Message'', PStr ''Service is down'')])]))))
          ''Hello'' []) =
     Inr [(''success'', PBool False),
          (''error'', PStr ''Bedrock service error: Service is down'')]"
proof -
  have r: "invoke_model (stub_env [] remote) c = remote" for remote c
    by (simp add: stub_env_def)
  have e: "map_of [(''Error'', PDict err)] ''Error'' = Some (PDict err)" for err
    by simp
  have c: "map_of [(''Code'', PStr code), (''Message'', PStr msg)] ''Code'' = Some (PStr code)"
    for code msg by simp
  have m: "map_of [(''Code'', PStr code), (''Message'', PStr msg)] ''Message'' = Some (PStr msg)"
    for code msg by simp
  from client_error_messages [OF r e c m, of "''ThrottlingException''" "''Request throttled''"
      "''Hello''" "[]"]
    client_error_messages [OF r e c m, of "''ServiceUnavailableException''" "''Service is down''"
      "''Hello''" "[]"]
  show ?thesis by simp
qed

section \<open>A response without content\<close>

text \<open>
  Claim C5, as stated, gives the failure a category \<^verbatim>\<open>unexpected_format\<close>. The dict the
  function returns for a response with an empty \<^verbatim>\<open>content\<close> list has the two entries
  \<^verbatim>\<open>success\<close> and \<^verbatim>\<open>error\<close>: there is no entry named \<^verbatim>\<open>category\<close>, and no entry holds
  \<^verbatim>\<open>unexpected_format\<close>.
\<close>

theorem unexpected_format_has_no_category_counterexample:
  "fst (invoke_bedrock_model
          (stub_env [(''{\"content\": []}'', PDict [(''content'', PList [])])]
             (Inr ''{\"content\": []}''))
          ''Hello'' []) =
     Inr [(''success'', PBool False),
          (''error'', PStr ''Unexpected response format from AI model'')] \<and>
   map_of [(''success'', PBool False),
           (''error'', PStr ''Unexpected response format from AI model'')] ''category'' = None \<and>
   PStr ''unexpected_format'' \<notin> snd ` set
          [(''success'', PBool False),
           (''error'', PStr ''Unexpected response format from AI model'')]"
  by (simp add: invoke_bedrock_model_def invoke_bedrock_model_try_def failure_result_def
      stub_env_def)

text \<open>
  Claim C5, amended. When the remote call returns a text that parses to a mapping with
  no \<^verbatim>\<open>content\<close> entry, or with one of length zero, \<^verbatim>\<open>invoke_bedrock_model\<close> returns the
  failure dict \<^verbatim>\<open>{success: False, error: "Unexpected response format from AI model"}\<close>.
  The handler surfaces that dict (lines 250 to 255) as the 500 envelope with the body
  \<^verbatim>\<open>{error: "Internal Server Error", message: ...}\<close> carrying that message; and for every
  event that the opening log statement can write, that is no preflight and that carries
  a valid request whose trimmed prompt is the one sent, this envelope is the answer of
  the handler.
\<close>

theorem unexpected_format_failure:
  assumes "invoke_model E (bedrock_call E prompt) = Inr raw"
    and "json_loads E raw = Inr (PDict rb)"
    and "map_of rb ''content'' = None \<or>
         (\<exists>content. map_of rb ''content'' = Some content \<and> py_len content = Inr 0)"
  shows "fst (invoke_bedrock_model E prompt calls) =
           Inr [(''success'', PBool False),
                (''error'', PStr ''Unexpected response format from AI model'')] \<and>
         bedrock_envelope E
           [(''success'', PBool False),
            (''error'', PStr ''Unexpected response format from AI model'')] =
           Inr \<lparr>statusCode = 500, headers = default_headers,
                 body = json_dumps E (PDict
                   [(''error'', PStr ''Internal Server Error''),
                    (''message'', PStr ''Unexpected response format from AI model'')])\<rparr> \<and>
         (\<forall>event logged s d p.
            json_dumps_event E event = Inr logged \<and>
            map_of event ''httpMethod'' \<noteq> Some (PStr ''OPTIONS'') \<and>
            map_of event ''body'' = Some (PStr s) \<and> s \<noteq> [] \<and>
            json_loads E s = Inr (PDict d) \<and> map_of d ''prompt'' = Some (PStr p) \<and>
            strip p = prompt \<and> prompt \<noteq> [] \<and> length p \<le> 4000 \<longrightarrow>
            fst (lambda_handler E event calls) =
              Inr \<lparr>statusCode = 500, headers = default_headers,
                    body = json_dumps E (PDict
                      [(''error'', PStr ''Internal Server Error''),
                       (''message'', PStr ''Unexpected response format from AI model'')])\<rparr>)"
proof -
  let ?envelope = "create_response E 500
            [(''error'', PStr ''Internal Server Error''),
             (''message'', PStr ''Unexpected response format from AI model'')] None"
  have inv: "fst (invoke_bedrock_model E prompt calls) =
      Inr (failure_result ''Unexpected response format from AI model'')"
    for calls
    using assms(3)
    by (auto simp: invoke_bedrock_model_def invoke_bedrock_model_try_dict [OF assms(1,2)])
  have env: "bedrock_envelope E (failure_result ''Unexpected response format from AI model'') =
      Inr ?envelope"
    by (rule bedrock_envelope_failure)
  have "fst (lambda_handler E event calls) = Inr ?envelope"
    if "json_dumps_event E event = Inr logged"
      "map_of event ''httpMethod'' \<noteq> Some (PStr ''OPTIONS'')"
      "map_of event ''body'' = Some (PStr s)" "s \<noteq> []"
      "json_loads E s = Inr (PDict d)" "map_of d ''prompt'' = Some (PStr p)"
      "strip p = prompt" "prompt \<noteq> []" "length p \<le> 4000"
    for event logged s d p
  proof -
    from that have ne: "strip p \<noteq> []" by simp
    from that inv have i: "fst (invoke_bedrock_model E (strip p) calls) =
        Inr (failure_result ''Unexpected response format from AI model'')"
      by simp
    from lambda_handler_valid [OF that(1,2,3,4,5,6) ne that(9) i env]
    show ?thesis by simp
  qed
  with inv env show ?thesis
    by (simp add: failure_result_def create_response_None)
qed

text \<open>An instance: the response of
  \<^verbatim>\<open>test_invoke_bedrock_model_unexpected_response_format\<close>.\<close>

theorem unexpected_format_failure_witness:
  "fst (invoke_bedrock_model
          (stub_env [(prompt_json ''Hello'', PDict [(''prompt'', PStr ''Hello'')]),
                     (''{\"unexpected_field\": \"value\"}'',
                      PDict [(''unexpected_field'', PStr ''value'')])]
             (Inr ''{\"unexpected_field\": \"value\"}''))
          ''Hello'' []) =
     Inr [(''success'', PBool False),
          (''error'', PStr ''Unexpected response format from AI model'')] \<and>
   fst (lambda_handler
          (stub_env [(prompt_json ''Hello'', PDict [(''prompt'', PStr ''Hello'')]),
                     (''{\"unexpected_field\": \"value\"}'',
                      PDict [(''unexpected_field'', PStr ''value'')])]
             (Inr ''{\"unexpected_field\": \"value\"}''))
          (post_event (prompt_json ''Hello'')) []) =
     Inr \<lparr>statusCode = 500, headers = default_headers,
           body = ''{\"error\": \"Internal Server Error\", \"message\": \"Unexpected response format from AI model\"}''\<rparr>"
proof -
  let ?E = "stub_env [(prompt_json ''Hello'', PDict [(''prompt'', PStr ''Hello'')]),
                     (''{\"unexpected_field\": \"value\"}'',
                      PDict [(''unexpected_field'', PStr ''value'')])]
             (Inr ''{\"unexpected_field\": \"value\"}'')"
  let ?ev = "post_event (prompt_json ''Hello'')"
  have 1: "invoke_model ?E (bedrock_call ?E ''Hello'') = Inr ''{\"unexpected_field\": \"value\"}''"
    by (rule stub_invoke_model)
  have 2: "json_loads ?E ''{\"unexpected_field\": \"value\"}'' =
             Inr (PDict [(''unexpected_field'', PStr ''value'')])"
    by (simp add: stub_env_def prompt_json_def)
  have 3: "map_of [(''unexpected_field'', PStr ''value'')] ''content'' = None \<or>
         (\<exists>content. map_of [(''unexpected_field'', PStr ''value'')] ''content'' = Some content \<and>
            py_len content = Inr 0)"
    by simp
  have ev: "json_dumps_event ?E ?ev = Inr (stub_dumps (PDict ?ev))"
    "map_of ?ev ''httpMethod'' \<noteq> Some (PStr ''OPTIONS'')"
    "map_of ?ev ''body'' = Some (PStr (prompt_json ''Hello''))"
    "prompt_json ''Hello'' \<noteq> []"
    "json_loads ?E (prompt_json ''Hello'') = Inr (PDict [(''prompt'', PStr ''Hello'')])"
    "map_of [(''prompt'', PStr ''Hello'')] ''prompt'' = Some (PStr ''Hello'')"
    "strip ''Hello'' = ''Hello''" "''Hello'' \<noteq> []" "length ''Hello'' \<le> 4000"
    by (simp_all add: post_event_logged post_event_def prompt_json_nonempty stub_env_def
        strip_Hello)
  note inst = unexpected_format_failure [OF 1 2 3, of "[]"]
  from inst have a: "fst (invoke_bedrock_model ?E ''Hello'' []) =
     Inr [(''success'', PBool False),
          (''error'', PStr ''Unexpected response format from AI model'')]"
    by (rule conjunct1)
  from inst ev have "fst (lambda_handler ?E ?ev []) =
     Inr \<lparr>statusCode = 500, headers = default_headers,
           body = json_dumps ?E (PDict
               [(''error'', PStr ''Internal Server Error''),
                (''message'', PStr ''Unexpected response format from AI model'')])\<rparr>"
    by blast
  then have b: "fst (lambda_handler ?E ?ev []) =
     Inr \<lparr>statusCode = 500, headers = default_headers,
           body = ''{\"error\": \"Internal Server Error\", \"message\": \"Unexpected response format from AI model\"}''\<rparr>"
    by (simp add: stub_json_dumps stub_dumps_defs)
  from a b show ?thesis by (rule conjI)
qed

section \<open>A body that is not JSON\<close>

text \<open>
  Claim C6, as stated, covers every non-empty body that cannot be parsed as JSON. A
  text of a thousand opening brackets is present, non-empty and no JSON; on it
  \<^verbatim>\<open>json.loads\<close> raises \<^verbatim>\<open>RecursionError\<close>, which the clause of line 80 does not catch, and
  the function returns \<^verbatim>\<open>Invalid request format\<close> from its catch-all.
\<close>

theorem invalid_json_catch_all_counterexample:
  "map_of (post_event deep_brackets) ''body'' = Some (PStr deep_brackets) \<and>
   truthy (PStr deep_brackets) \<and>
   json_loads stub_env_deep deep_brackets = Inl RecursionError \<and>
   validate_request stub_env_deep (post_event deep_brackets) =
     Inr (Some ''Invalid request format'')"
proof -
  have ne: "deep_brackets \<noteq> []"
    by (simp add: deep_brackets_def)
  have l: "json_loads stub_env_deep deep_brackets = Inl RecursionError"
    by (simp add: stub_env_deep_def)
  from ne l show ?thesis
    by (simp add: validate_request_def validate_request_try_def post_event_def)
qed

text \<open>
  Claim C6, amended. For every event whose body is present and non-empty and on which
  the parser reports a decode error (\<^verbatim>\<open>json.loads\<close> raises \<^verbatim>\<open>json.JSONDecodeError\<close>),
  \<^verbatim>\<open>validate_request\<close> returns \<^verbatim>\<open>Invalid JSON in request body\<close>; when parsing raises any
  other exception (the body is no text, or the parser gives up on it), the function
  returns \<^verbatim>\<open>Invalid request format\<close>.
\<close>

theorem invalid_json_rejected:
  assumes "map_of event ''body'' = Some b" and "truthy b"
    and "py_json_loads E b = Inl e"
  shows "validate_request E event =
           Inr (Some (if e = JSONDecodeError then ''Invalid JSON in request body''
                      else ''Invalid request format''))"
  using assms by (cases e) (simp_all add: validate_request_def validate_request_try_def)

text \<open>
  Two instances: the body of \<^verbatim>\<open>test_validate_request_invalid_json\<close>, and a body that
  is the number 123 and no text.
\<close>

theorem invalid_json_rejected_witness:
  "validate_request (stub_env [] (Inl BotoCoreError)) (post_event ''invalid json'') =
     Inr (Some ''Invalid JSON in request body'') \<and>
   validate_request (stub_env [] (Inl BotoCoreError)) [(''body'', PInt 123)] =
     Inr (Some ''Invalid request format'')"
proof -
  let ?E = "stub_env [] (Inl BotoCoreError)"
  have 1: "map_of (post_event ''invalid json'') ''body'' = Some (PStr ''invalid json'')"
    by (simp add: post_event_def)
  have 2: "truthy (PStr ''invalid json'')" by simp
  have 3: "py_json_loads ?E (PStr ''invalid json'') = Inl JSONDecodeError"
    by (simp add: stub_env_def)
  have 4: "map_of [(''body'', PInt 123)] ''body'' = Some (PInt 123)" by simp
  have 5: "truthy (PInt 123)" by simp
  have 6: "py_json_loads ?E (PInt 123) = Inl TypeError" by simp
  from invalid_json_rejected [OF 1 2 3] invalid_json_rejected [OF 4 5 6]
  show ?thesis by simp
qed

section \<open>The limit of 4000 characters\<close>

text \<open>
  Claim C7. For every request whose prompt is a string that is non-empty once trimmed,
  \<^verbatim>\<open>validate_request\<close> returns \<^verbatim>\<open>Prompt exceeds maximum length of 4000 characters\<close> when the
  untrimmed prompt is longer than 4000 characters, and \<^verbatim>\<open>None\<close> otherwise: the message
  is returned exactly above 4000, and a prompt of exactly 4000 characters passes.
\<close>

theorem length_limit_4000:
  assumes "map_of event ''body'' = Some (PStr s)" and "s \<noteq> []"
    and "json_loads E s = Inr (PDict d)"
    and "map_of d ''prompt'' = Some (PStr p)" and "strip p \<noteq> []"
  shows "validate_request E event =
           (if length p > 4000
            then Inr (Some ''Prompt exceeds maximum length of 4000 characters'')
            else Inr None)"
  using assms by (simp add: validate_request_dict [OF assms(1,2,3)])

text \<open>Two instances: 4000 letters pass, 4001 letters are rejected.\<close>

theorem length_limit_4000_witness:
  "validate_request
     (stub_env [(prompt_json (replicate 4000 (CHR ''a'')),
                 PDict [(''prompt'', PStr (replicate 4000 (CHR ''a'')))])] (Inl BotoCoreError))
     (post_event (prompt_json (replicate 4000 (CHR ''a'')))) = Inr None \<and>
   validate_request
     (stub_env [(prompt_json (replicate 4001 (CHR ''a'')),
                 PDict [(''prompt'', PStr (replicate 4001 (CHR ''a'')))])] (Inl BotoCoreError))
     (post_event (prompt_json (replicate 4001 (CHR ''a'')))) =
     Inr (Some ''Prompt exceeds maximum length of 4000 characters'')"
proof -
  have d: "map_of [(''prompt'', PStr p)] ''prompt'' = Some (PStr p)" for p
    by simp
  have s: "strip (replicate n (CHR ''a'')) \<noteq> []" if "0 < n" for n
    using that by (simp add: strip_replicate not_isspace_a)
  have "strip (replicate 4000 (CHR ''a'')) \<noteq> []" by (rule s) simp
  from length_limit_4000 [OF post_event_body prompt_json_nonempty stub_loads_hit d this]
  have a: "validate_request
     (stub_env [(prompt_json (replicate 4000 (CHR ''a'')),
                 PDict [(''prompt'', PStr (replicate 4000 (CHR ''a'')))])] (Inl BotoCoreError))
     (post_event (prompt_json (replicate 4000 (CHR ''a'')))) = Inr None"
    by simp
  have "strip (replicate 4001 (CHR ''a'')) \<noteq> []" by (rule s) simp
  from length_limit_4000 [OF post_event_body prompt_json_nonempty stub_loads_hit d this]
  have b: "validate_request
     (stub_env [(prompt_json (replicate 4001 (CHR ''a'')),
                 PDict [(''prompt'', PStr (replicate 4001 (CHR ''a'')))])] (Inl BotoCoreError))
     (post_event (prompt_json (replicate 4001 (CHR ''a'')))) =
     Inr (Some ''Prompt exceeds maximum length of 4000 characters'')"
    by simp
  from a b show ?thesis by (rule conjI)
qed

section \<open>The CORS preflight\<close>

text \<open>
  Claim C8, as stated, promises the 200 answer for every event whose method is
  \<^verbatim>\<open>OPTIONS\<close>. The handler first logs the event (line 218), and
  \<^verbatim>\<open>json.dumps(event, default=str)\<close> raises \<^verbatim>\<open>ValueError\<close> on the event
  \<^verbatim>\<open>{'httpMethod': 'OPTIONS', 'n': 10**4300}\<close>, whose integer has 4301 digits: the handler
  answers with the generic 500 envelope.
\<close>

theorem options_preflight_log_counterexample:
  "map_of [(''httpMethod'', PStr ''OPTIONS''), (''n'', PInt int_str_bound)] ''httpMethod'' =
     Some (PStr ''OPTIONS'') \<and>
   json_dumps_event (stub_env [] (Inl BotoCoreError))
     [(''httpMethod'', PStr ''OPTIONS''), (''n'', PInt int_str_bound)] = Inl EncodeValueError \<and>
   lambda_handler (stub_env [] (Inl BotoCoreError))
     [(''httpMethod'', PStr ''OPTIONS''), (''n'', PInt int_str_bound)] [] =
     (Inr \<lparr>statusCode = 500, headers = default_headers,
           body = ''{\"error\": \"Internal Server Error\", \"message\": \"An unexpected error occurred\"}''\<rparr>,
      [])"
proof -
  let ?E = "stub_env [] (Inl BotoCoreError)"
  let ?ev = "[(''httpMethod'', PStr ''OPTIONS''), (''n'', PInt int_str_bound)]"
  have raised: "json_dumps_event ?E ?ev = Inl EncodeValueError"
    by (simp add: stub_env_def)
  have "lambda_handler ?E ?ev [] =
     (Inr (create_response ?E 500
             [(''error'', PStr ''Internal Server Error''),
              (''message'', PStr ''An unexpected error occurred'')] None), [])"
    by (simp add: lambda_handler_def lambda_handler_try_log_raises [OF raised])
  then have "lambda_handler ?E ?ev [] =
     (Inr \<lparr>statusCode = 500, headers = default_headers,
           body = ''{\"error\": \"Internal Server Error\", \"message\": \"An unexpected error occurred\"}''\<rparr>,
      [])"
    by (simp add: create_response_None stub_json_dumps stub_dumps_defs)
  with raised show ?thesis by simp
qed

text \<open>
  Claim C8, amended. For every event whose \<^verbatim>\<open>httpMethod\<close> is \<^verbatim>\<open>OPTIONS\<close> and which the
  opening log statement can write (\<^verbatim>\<open>json.dumps(event, default=str)\<close> raises nothing), the
  handler answers 200 with the body \<^verbatim>\<open>{message: "CORS preflight successful"}\<close>, whatever
  the body of the event, the parser and the remote service are; when writing the event
  raises, the answer is the generic 500 envelope. Either way the list of calls sent to
  the remote service is unchanged, so the invoker has not run, and the answer does not
  depend on what the validator would say.
\<close>

theorem options_preflight:
  assumes "map_of event ''httpMethod'' = Some (PStr ''OPTIONS'')"
  shows "lambda_handler E event calls =
           (Inr (case json_dumps_event E event of
                   Inr logged \<Rightarrow>
                     \<lparr>statusCode = 200, headers = default_headers,
                      body = json_dumps E
                        (PDict [(''message'', PStr ''CORS preflight successful'')])\<rparr>
                 | Inl err \<Rightarrow>
                     \<lparr>statusCode = 500, headers = default_headers,
                      body = json_dumps E
                        (PDict [(''error'', PStr ''Internal Server Error''),
                                (''message'', PStr ''An unexpected error occurred'')])\<rparr>),
            calls)"
proof (cases "json_dumps_event E event")
  case (Inl err)
  have "encode_exn err \<noteq> JSONDecodeError" by simp
  then have "lambda_handler E event calls =
      (Inr (create_response E 500
              [(''error'', PStr ''Internal Server Error''),
               (''message'', PStr ''An unexpected error occurred'')] None), calls)"
    by (cases "encode_exn err")
       (simp_all add: lambda_handler_def lambda_handler_try_log_raises [OF Inl])
  with Inl show ?thesis by (simp add: create_response_None)
next
  case (Inr logged)
  with assms show ?thesis
    by (simp add: lambda_handler_def lambda_handler_try_logged [OF Inr] create_response_None)
qed

text \<open>An instance: a preflight event that carries a body that is no JSON.\<close>

theorem options_preflight_witness:
  "map_of [(''httpMethod'', PStr ''OPTIONS''), (''body'', PStr ''invalid json'')] ''httpMethod'' =
     Some (PStr ''OPTIONS'') \<and>
   lambda_handler (stub_env [] (Inl BotoCoreError))
     [(''httpMethod'', PStr ''OPTIONS''), (''body'', PStr ''invalid json'')] [] =
     (Inr \<lparr>statusCode = 200, headers = default_headers,
           body = ''{\"message\": \"CORS preflight successful\"}''\<rparr>,
      [])"
proof -
  let ?E = "stub_env [] (Inl BotoCoreError)"
  let ?ev = "[(''httpMethod'', PStr ''OPTIONS''), (''body'', PStr ''invalid json'')]"
  have m: "map_of ?ev ''httpMethod'' = Some (PStr ''OPTIONS'')"
    by simp
  have logged: "json_dumps_event ?E ?ev = Inr (stub_dumps (PDict ?ev))"
    by (rule stub_dumps_event) simp
  from options_preflight [OF m, of ?E "[]"] have "lambda_handler ?E ?ev [] =
     (Inr \<lparr>statusCode = 200, headers = default_headers,
           body = json_dumps ?E (PDict [(''message'', PStr ''CORS preflight successful'')])\<rparr>,
      [])"
    by (simp only: logged sum.case)
  then have "lambda_handler ?E ?ev [] =
     (Inr \<lparr>statusCode = 200, headers = default_headers,
           body = ''{\"message\": \"CORS preflight successful\"}''\<rparr>,
      [])"
    by (simp add: stub_json_dumps stub_dumps_defs)
  with m show ?thesis by (rule conjI)
qed

section \<open>The envelope of \<^verbatim>\<open>create_response\<close>\<close>

text \<open>
  Claim C9. For every status code and body, the envelope of \<^verbatim>\<open>create_response\<close> has
  that status code, the body serialised by \<^verbatim>\<open>json.dumps\<close>, and as headers the four
  defaults overridden and extended by the headers the caller gave: a key of the
  caller's wins over a default, any other key of the caller's is added, and a default
  the caller did not name keeps its value. The caller's headers are a dict, that is,
  their keys are distinct.
\<close>

theorem create_response_envelope:
  assumes "case headers' of None \<Rightarrow> True | Some h \<Rightarrow> distinct (map fst h)"
  shows "statusCode (create_response E status_code body' headers') = status_code \<and>
         body (create_response E status_code body' headers') = json_dumps E (PDict body') \<and>
         map_of (headers (create_response E status_code body' headers')) =
           map_of [(''Content-Type'', ''application/json''),
                   (''Access-Control-Allow-Origin'', ''*''),
                   (''Access-Control-Allow-Methods'', ''POST, OPTIONS''),
                   (''Access-Control-Allow-Headers'', ''Content-Type, Authorization'')]
           ++ (case headers' of None \<Rightarrow> Map.empty | Some h \<Rightarrow> map_of h)"
proof (cases headers')
  case None
  then show ?thesis by (simp add: create_response_def default_headers_def)
next
  case (Some h)
  with assms have "distinct (map fst h)" by simp
  then have "map_of (dict_update default_headers h) = map_of default_headers ++ map_of h"
    by (rule map_of_dict_update)
  with Some show ?thesis
    by (cases "h = []") (simp_all add: create_response_def default_headers_def)
qed

text \<open>
  An instance: the caller overrides \<^verbatim>\<open>Content-Type\<close> and adds the header of
  \<^verbatim>\<open>test_create_response_with_custom_headers\<close>.
\<close>

theorem create_response_envelope_witness:
  "distinct (map fst [(''Content-Type'', ''text/plain''), (''X-Custom-Header'', ''test-value'')]) \<and>
   statusCode (create_response (stub_env [] (Inl BotoCoreError)) 201 [(''data'', PStr ''test'')]
     (Some [(''Content-Type'', ''text/plain''), (''X-Custom-Header'', ''test-value'')])) = 201 \<and>
   map_of (headers (create_response (stub_env [] (Inl BotoCoreError)) 201 [(''data'', PStr ''test'')]
     (Some [(''Content-Type'', ''text/plain''), (''X-Custom-Header'', ''test-value'')])))
     ''Content-Type'' = Some ''text/plain'' \<and>
   map_of (headers (create_response (stub_env [] (Inl BotoCoreError)) 201 [(''data'', PStr ''test'')]
     (Some [(''Content-Type'', ''text/plain''), (''X-Custom-Header'', ''test-value'')])))
     ''X-Custom-Header'' = Some ''test-value'' \<and>
   map_of (headers (create_response (stub_env [] (Inl BotoCoreError)) 201 [(''data'', PStr ''test'')]
     (Some [(''Content-Type'', ''text/plain''), (''X-Custom-Header'', ''test-value'')])))
     ''Access-Control-Allow-Origin'' = Some ''*''"
proof -
  let ?h = "[(''Content-Type'', ''text/plain''), (''X-Custom-Header'', ''test-value'')]"
  have d: "case Some ?h of None \<Rightarrow> True | Some h \<Rightarrow> distinct (map fst h)"
    by simp
  from create_response_envelope [OF d, of "stub_env [] (Inl BotoCoreError)" 201
      "[(''data'', PStr ''test'')]"]
  show ?thesis by (simp add: map_add_def)
qed

section \<open>What a valid request guarantees\<close>

text \<open>
  Claim C10. For every event on which \<^verbatim>\<open>validate_request\<close> returns \<^verbatim>\<open>None\<close>, the body is
  a text that parses to a mapping with a key \<^verbatim>\<open>prompt\<close> whose value is a string, non-empty
  once trimmed, of at most 4000 characters (trimmed or not). Consequently the success
  path of the handler (lines 233 to 240) raises nothing when it re-parses the body,
  reads the key and trims: its outcome is that of \<^verbatim>\<open>invoke_bedrock_model\<close> on the trimmed
  prompt, and the one call it sends to the remote service carries the model
  identifier, the two content types and the serialised request whose only message has
  the trimmed prompt as content. The handler takes that path for every such event that
  the opening log statement can write and that is no preflight.
\<close>

theorem validated_prompt_reaches_model:
  assumes "validate_request E event = Inr None"
  shows "\<exists>s d p. map_of event ''body'' = Some (PStr s) \<and>
           json_loads E s = Inr (PDict d) \<and> map_of d ''prompt'' = Some (PStr p) \<and>
           strip p \<noteq> [] \<and> length (strip p) \<le> length p \<and> length p \<le> 4000 \<and>
           process_prompt E event calls =
             (case invoke_bedrock_model E (strip p) calls of
                (Inl e, calls') \<Rightarrow> (Inl e, calls')
              | (Inr bedrock_response, calls') \<Rightarrow>
                  (bedrock_envelope E bedrock_response, calls')) \<and>
           snd (process_prompt E event calls) =
             calls @
             [(BEDROCK_MODEL_ID E,
               json_dumps E (PDict
                 [(''anthropic_version'', PStr ''bedrock-2023-05-31''),
                  (''max_tokens'', PInt 4000),
                  (''temperature'', PFloat 0x3FE6666666666666),
                  (''messages'',
                   PList [PDict [(''role'', PStr ''user''), (''content'', PStr (strip p))]])]),
               ''application/json'', ''application/json'')] \<and>
           (\<forall>logged. json_dumps_event E event = Inr logged \<and>
              map_of event ''httpMethod'' \<noteq> Some (PStr ''OPTIONS'') \<longrightarrow>
              lambda_handler_try E event calls = process_prompt E event calls \<and>
              snd (lambda_handler E event calls) = snd (process_prompt E event calls))"
proof -
  from validate_request_None [OF assms] obtain s d p where
    b: "map_of event ''body'' = Some (PStr s)" "json_loads E s = Inr (PDict d)"
      "map_of d ''prompt'' = Some (PStr p)"
    and p: "strip p \<noteq> []" "length p \<le> 4000"
    by blast
  have len: "length (strip p) \<le> length p"
  proof -
    have "length (dropWhile isspace (rev (dropWhile isspace p))) \<le>
            length (rev (dropWhile isspace p))"
      by (rule length_dropWhile_le)
    moreover have "length (dropWhile isspace p) \<le> length p"
      by (rule length_dropWhile_le)
    ultimately show ?thesis by (simp add: strip_def)
  qed
  have run: "process_prompt E event calls =
             (case invoke_bedrock_model E (strip p) calls of
                (Inl e, calls') \<Rightarrow> (Inl e, calls')
              | (Inr bedrock_response, calls') \<Rightarrow>
                  (bedrock_envelope E bedrock_response, calls'))"
    by (rule process_prompt_valid [OF b])
  have "snd (process_prompt E event calls) = snd (invoke_bedrock_model E (strip p) calls)"
    by (simp add: run split: prod.splits sum.splits)
  then have sent: "snd (process_prompt E event calls) =
             calls @
             [(BEDROCK_MODEL_ID E,
               json_dumps E (PDict
                 [(''anthropic_version'', PStr ''bedrock-2023-05-31''),
                  (''max_tokens'', PInt 4000),
                  (''temperature'', PFloat 0x3FE6666666666666),
                  (''messages'',
                   PList [PDict [(''role'', PStr ''user''), (''content'', PStr (strip p))]])]),
               ''application/json'', ''application/json'')]"
    by (simp add: invoke_bedrock_model_calls bedrock_call_content)
  have taken: "lambda_handler_try E event calls = process_prompt E event calls \<and>
      snd (lambda_handler E event calls) = snd (process_prompt E event calls)"
    if "json_dumps_event E event = Inr logged"
      "map_of event ''httpMethod'' \<noteq> Some (PStr ''OPTIONS'')"
    for logged
  proof -
    have t: "lambda_handler_try E event calls = process_prompt E event calls"
      by (rule lambda_handler_try_valid [OF that assms])
    have "snd (lambda_handler E event calls) = snd (lambda_handler_try E event calls)"
      by (cases "lambda_handler_try E event calls")
         (simp add: lambda_handler_def split: sum.splits exn.splits)
    with t show ?thesis by simp
  qed
  from b p len run sent taken show ?thesis by blast
qed

text \<open>
  An instance: the prompt \<^verbatim>\<open>"  Hello  "\<close> is sent as \<^verbatim>\<open>"Hello"\<close>; the call the remote
  service receives is written out, and it is not the call for the untrimmed prompt.
\<close>

theorem validated_prompt_reaches_model_witness:
  "validate_request
     (stub_env [(prompt_json ''  Hello  '', PDict [(''prompt'', PStr ''  Hello  '')])]
        (Inl BotoCoreError))
     (post_event (prompt_json ''  Hello  '')) = Inr None \<and>
   snd (lambda_handler
     (stub_env [(prompt_json ''  Hello  '', PDict [(''prompt'', PStr ''  Hello  '')])]
        (Inl BotoCoreError))
     (post_event (prompt_json ''  Hello  '')) []) =
     [(''anthropic.claude-3-5-haiku-20241022-v1:0'',
       ''{\"anthropic_version\": \"bedrock-2023-05-31\", \"max_tokens\": 4000, \"temperature\": 0.7, \"messages\": [{\"role\": \"user\", \"content\": \"Hello\"}]}'',
       ''application/json'', ''application/json'')] \<and>
   snd (lambda_handler
     (stub_env [(prompt_json ''  Hello  '', PDict [(''prompt'', PStr ''  Hello  '')])]
        (Inl BotoCoreError))
     (post_event (prompt_json ''  Hello  '')) []) \<noteq>
     [bedrock_call
        (stub_env [(prompt_json ''  Hello  '', PDict [(''prompt'', PStr ''  Hello  '')])]
           (Inl BotoCoreError))
        ''  Hello  '']"
proof -
  let ?E = "stub_env [(prompt_json ''  Hello  '', PDict [(''prompt'', PStr ''  Hello  '')])]
              (Inl BotoCoreError)"
  let ?ev = "post_event (prompt_json ''  Hello  '')"
  let ?sent = "[(''anthropic.claude-3-5-haiku-20241022-v1:0'',
       ''{\"anthropic_version\": \"bedrock-2023-05-31\", \"max_tokens\": 4000, \"temperature\": 0.7, \"messages\": [{\"role\": \"user\", \"content\": \"Hello\"}]}'',
       ''application/json'', ''application/json'')]"
  have ev: "map_of ?ev ''httpMethod'' \<noteq> Some (PStr ''OPTIONS'')"
    "map_of ?ev ''body'' = Some (PStr (prompt_json ''  Hello  ''))"
    "prompt_json ''  Hello  '' \<noteq> []"
    "json_loads ?E (prompt_json ''  Hello  '') = Inr (PDict [(''prompt'', PStr ''  Hello  '')])"
    "map_of [(''prompt'', PStr ''  Hello  '')] ''prompt'' = Some (PStr ''  Hello  '')"
    by (simp_all add: post_event_def prompt_json_nonempty stub_env_def)
  have logged: "json_dumps_event ?E ?ev = Inr (stub_dumps (PDict ?ev))"
    by (rule post_event_logged)
  have v: "validate_request ?E ?ev = Inr None"
    by (simp add: validate_request_dict [OF ev(2,3,4)] strip_padded_Hello)
  from validated_prompt_reaches_model [OF v, of "[]"] obtain s d p where
    f: "map_of ?ev ''body'' = Some (PStr s)" "json_loads ?E s = Inr (PDict d)"
      "map_of d ''prompt'' = Some (PStr p)"
    and sent: "snd (process_prompt ?E ?ev []) =
             [] @
             [(BEDROCK_MODEL_ID ?E,
               json_dumps ?E (PDict
                 [(''anthropic_version'', PStr ''bedrock-2023-05-31''),
                  (''max_tokens'', PInt 4000),
                  (''temperature'', PFloat 0x3FE6666666666666),
                  (''messages'',
                   PList [PDict [(''role'', PStr ''user''), (''content'', PStr (strip p))]])]),
               ''application/json'', ''application/json'')]"
    and taken: "\<forall>logged. json_dumps_event ?E ?ev = Inr logged \<and>
              map_of ?ev ''httpMethod'' \<noteq> Some (PStr ''OPTIONS'') \<longrightarrow>
              lambda_handler_try ?E ?ev [] = process_prompt ?E ?ev [] \<and>
              snd (lambda_handler ?E ?ev []) = snd (process_prompt ?E ?ev [])"
    by blast
  from f ev have "p = ''  Hello  ''" by auto
  with sent have "snd (process_prompt ?E ?ev []) = ?sent"
    by (simp add: strip_padded_Hello stub_model_id stub_json_dumps stub_dumps_defs)
  moreover from taken logged ev(1) have
    "snd (lambda_handler ?E ?ev []) = snd (process_prompt ?E ?ev [])"
    by blast
  ultimately have a: "snd (lambda_handler ?E ?ev []) = ?sent" by simp
  have "[bedrock_call ?E ''  Hello  ''] \<noteq> ?sent"
    by (simp add: bedrock_call_content stub_model_id stub_json_dumps stub_dumps_defs)
  with a have b: "snd (lambda_handler ?E ?ev []) \<noteq> [bedrock_call ?E ''  Hello  '']"
    by simp
  from v a b show ?thesis by simp
qed

end
